theory Spec2Isabelle
  imports Complex_Main "HOL-Library.Sublist" "HOL-Library.AList"
begin

section \<open>Python strings\<close>

text \<open>
  A Python \<open>str\<close> is modelled as a \<open>string\<close>: one \<open>char\<close> per code point, for
  the code points below 256.  The operations below are the ones the two scripts use.
\<close>

text \<open>\<open>sub in s\<close> for two strings: \<open>sub\<close> occurs in \<open>s\<close> as a contiguous block.\<close>

fun str_in :: "string \<Rightarrow> string \<Rightarrow> bool" where
  "str_in sub [] = (sub = [])"
| "str_in sub (c # cs) = (prefix sub (c # cs) \<or> str_in sub cs)"

text \<open>\<open>s.split(sep)[0]\<close> for a non-empty separator: the text in front of the first
  occurrence of \<open>sep\<close>, all of \<open>s\<close> when there is none.\<close>

fun split_first :: "string \<Rightarrow> string \<Rightarrow> string" where
  "split_first sep [] = []"
| "split_first sep (c # cs) = (if prefix sep (c # cs) then [] else c # split_first sep cs)"

text \<open>The characters \<open>str.isspace\<close> accepts, which are also the ones \<open>str.strip()\<close> removes
  and the ones the regular-expression class \<open>\s\<close> matches on a \<open>str\<close> pattern.\<close>

definition isspace :: "char \<Rightarrow> bool" where
  "isspace c = (of_char c \<in> {9, 10, 11, 12, 13, 28, 29, 30, 31, 32, 133, 160 :: nat})"

definition lstrip :: "string \<Rightarrow> string" where
  "lstrip s = dropWhile isspace s"

definition rstrip :: "string \<Rightarrow> string" where
  "rstrip s = rev (dropWhile isspace (rev s))"

definition strip :: "string \<Rightarrow> string" where
  "strip s = rstrip (lstrip s)"

definition isdigit :: "char \<Rightarrow> bool" where
  "isdigit c = (48 \<le> (of_char c :: nat) \<and> (of_char c :: nat) \<le> 57)"

section \<open>Exceptions\<close>

text \<open>An exception is its class and its message (what \<open>str(e)\<close> returns).  A function
  that can raise returns \<open>exn + 'a\<close>, with \<open>Inl\<close> for the exception.\<close>

datatype exn_class = ValueError | TypeError | AttributeError | KeyError | ExternalError

datatype exn = Exn exn_class string

fun exn_str :: "exn \<Rightarrow> string" where
  "exn_str (Exn k msg) = msg"

text \<open>\<open>str(n)\<close> on an integer.\<close>

definition digit_char :: "nat \<Rightarrow> char" where
  "digit_char d = ''0123456789'' ! d"

fun str_of_nat :: "nat \<Rightarrow> string" where
  "str_of_nat n =
     (if n < 10 then [digit_char n]
      else str_of_nat (n div 10) @ [digit_char (n mod 10)])"

definition str_of_int :: "int \<Rightarrow> string" where
  "str_of_int i = (if i < 0 then CHR ''-'' # str_of_nat (nat (- i)) else str_of_nat (nat i))"

text \<open>\<open>int(s)\<close>: the value of a non-empty string of decimal digits.  On every other
  string the model raises \<open>ValueError\<close>; Python's \<open>int\<close> also reads signs, blanks and
  underscores, which the digit groups converted here never hold.  Python integers are
  unbounded, but the interpreter (CPython 3.11 and later, with its default setting)
  refuses to convert a string of more than 4300 digits, leading zeros counted, and
  raises \<open>ValueError\<close>.\<close>

definition digit_val :: "char \<Rightarrow> int" where
  "digit_val c = int (of_char c) - 48"

definition max_str_digits :: nat where
  "max_str_digits = 4300"

definition py_int :: "string \<Rightarrow> exn + int" where
  "py_int s =
     (if s \<noteq> [] \<and> list_all isdigit s
      then (if max_str_digits < length s
            then Inl (Exn ValueError
                   (''Exceeds the limit (4300 digits) for integer string conversion: value has ''
                    @ str_of_nat (length s)
                    @ '' digits; use sys.set_int_max_str_digits() to increase the limit''))
            else Inr (foldl (\<lambda>acc c. 10 * acc + digit_val c) 0 s))
      else Inl (Exn ValueError (''invalid literal for int() with base 10: '' @ s)))"

section \<open>Regular expressions\<close>

text \<open>
  The scripts search with Python's \<open>re\<close> module, a backtracking matcher.  The patterns
  they use are built from literals, character classes, greedy and lazy repetition of a
  class, an optional literal and one capturing group.  \<open>rmatch r s\<close> lists, in the
  order in which the matcher tries them, the ways \<open>r\<close> matches a prefix of \<open>s\<close>:
  the rest of the input and what group 1 captured, if it took part.
\<close>

datatype cclass = Digit | Space | AnyChar | NoneOf string

fun in_class :: "cclass \<Rightarrow> char \<Rightarrow> bool" where
  "in_class Digit c = isdigit c"
| "in_class Space c = isspace c"
| "in_class AnyChar c = True"
| "in_class (NoneOf cs) c = (c \<notin> set cs)"

datatype regex =
    Lit string
  | Star cclass
  | Plus cclass
  | LazyStar cclass
  | Opt regex
  | Seq regex regex
  | Group regex

text \<open>Greedy repetition tries the longest run first, lazy repetition the shortest.\<close>

fun star_greedy :: "cclass \<Rightarrow> string \<Rightarrow> string list" where
  "star_greedy k [] = [[]]"
| "star_greedy k (c # cs) =
     (if in_class k c then star_greedy k cs @ [c # cs] else [c # cs])"

fun star_lazy :: "cclass \<Rightarrow> string \<Rightarrow> string list" where
  "star_lazy k [] = [[]]"
| "star_lazy k (c # cs) =
     (c # cs) # (if in_class k c then star_lazy k cs else [])"

fun rmatch :: "regex \<Rightarrow> string \<Rightarrow> (string \<times> string option) list" where
  "rmatch (Lit l) s = (if prefix l s then [(drop (length l) s, None)] else [])"
| "rmatch (Star k) s = map (\<lambda>r. (r, None)) (star_greedy k s)"
| "rmatch (Plus k) s =
     (case s of [] \<Rightarrow> []
      | c # cs \<Rightarrow> if in_class k c then map (\<lambda>r. (r, None)) (star_greedy k cs) else [])"
| "rmatch (LazyStar k) s = map (\<lambda>r. (r, None)) (star_lazy k s)"
| "rmatch (Opt r) s = rmatch r s @ [(s, None)]"
| "rmatch (Seq r1 r2) s =
     concat (map (\<lambda>(s1, g1).
        map (\<lambda>(s2, g2). (s2, case g2 of None \<Rightarrow> g1 | Some g \<Rightarrow> Some g)) (rmatch r2 s1))
      (rmatch r1 s))"
| "rmatch (Group r) s =
     map (\<lambda>(s1, g). (s1, Some (take (length s - length s1) s))) (rmatch r s)"

text \<open>\<open>re.search\<close>: the first match at the leftmost position that has one.  The result
  is \<open>group(0)\<close> and \<open>group(1)\<close>.\<close>

fun re_search :: "regex \<Rightarrow> string \<Rightarrow> (string \<times> string option) option" where
  "re_search r [] =
     (case rmatch r [] of [] \<Rightarrow> None | (rest, g) # _ \<Rightarrow> Some ([], g))"
| "re_search r (c # cs) =
     (case rmatch r (c # cs) of
        [] \<Rightarrow> re_search r cs
      | (rest, g) # _ \<Rightarrow> Some (take (length (c # cs) - length rest) (c # cs), g))"

section \<open>Crash analysis\<close>

record crash_info =
  crash_type :: string
  tokens_used :: "int option"
  token_limit :: "int option"
  error_short :: string

definition tokens_pattern :: regex where
  "tokens_pattern = Seq (Lit ''your request has '') (Seq (Group (Plus Digit)) (Lit '' input tokens''))"

definition limit_pattern :: regex where
  "limit_pattern = Seq (Lit ''maximum context length is '') (Seq (Group (Plus Digit)) (Lit '' tokens''))"

text \<open>\<open>int(m.group(1)) if m else None\<close>.  \<open>group(1)\<close> of a match whose group did not
  take part is \<open>None\<close>, which \<open>int\<close> refuses with a \<open>TypeError\<close>.\<close>

definition group1_int :: "(string \<times> string option) option \<Rightarrow> exn + int option" where
  "group1_int m =
     (case m of
        None \<Rightarrow> Inr None
      | Some (g0, None) \<Rightarrow> Inl (Exn TypeError ''int() argument must be a string'')
      | Some (g0, Some d) \<Rightarrow> (case py_int d of Inl e \<Rightarrow> Inl e | Inr i \<Rightarrow> Inr (Some i)))"

text \<open>The number of digits a pattern's group captured in a text, \<open>0\<close> when the pattern
  is not found.\<close>

definition captured_digits :: "regex \<Rightarrow> string \<Rightarrow> nat" where
  "captured_digits p s = (case re_search p s of Some (g0, Some d) \<Rightarrow> length d | _ \<Rightarrow> 0)"

text \<open>How an f-string prints an optional integer: the digits, or \<open>None\<close>.\<close>

definition fmt_opt_int :: "int option \<Rightarrow> string" where
  "fmt_opt_int v = (case v of None \<Rightarrow> ''None'' | Some i \<Rightarrow> str_of_int i)"

text \<open>Truth value of an optional integer: \<open>None\<close> and \<open>0\<close> are false.\<close>

definition truthy_opt_int :: "int option \<Rightarrow> bool" where
  "truthy_opt_int v = (case v of None \<Rightarrow> False | Some i \<Rightarrow> i \<noteq> 0)"

definition classify_crash :: "string \<Rightarrow> exn + crash_info" where
  "classify_crash error_msg =
     (if str_in ''ContextWindowExceeded'' error_msg then
        (let tokens_match = re_search tokens_pattern error_msg;
             limit_match = re_search limit_pattern error_msg
         in case group1_int tokens_match of
              Inl e \<Rightarrow> Inl e
            | Inr used \<Rightarrow>
               (case group1_int limit_match of
                  Inl e \<Rightarrow> Inl e
                | Inr limit \<Rightarrow>
                    Inr \<lparr> crash_type = ''context_window'', tokens_used = used, token_limit = limit,
                      error_short =
                        (if truthy_opt_int used
                         then ''Context window exceeded ('' @ fmt_opt_int used @ ''/''
                                @ fmt_opt_int limit @ '' tokens)''
                         else ''Context window exceeded'') \<rparr>))
      else if str_in ''Timeout'' error_msg \<or> str_in ''APITimeout'' error_msg then
        Inr \<lparr> crash_type = ''api_timeout'', tokens_used = None, token_limit = None,
          error_short = ''API request timed out'' \<rparr>
      else
        Inr \<lparr> crash_type = ''other'', tokens_used = None, token_limit = None,
          error_short = take 120 (split_first [CHR 0x0A] error_msg) \<rparr>)"

section \<open>JSON values and trajectory files\<close>

text \<open>
  What \<open>json.load\<close> returns.  An object is a Python \<open>dict\<close>: an association list in
  insertion order, looked up with \<open>map_of\<close> and updated in place with \<open>AList.update\<close>.
\<close>

datatype json =
    JNull
  | JBool bool
  | JInt int
  | JReal real
  | JStr string
  | JArr "json list"
  | JObj "(string \<times> json) list"

text \<open>Python's truth value of a JSON value.\<close>

fun truthy :: "json \<Rightarrow> bool" where
  "truthy JNull = False"
| "truthy (JBool b) = b"
| "truthy (JInt i) = (i \<noteq> 0)"
| "truthy (JReal r) = (r \<noteq> 0)"
| "truthy (JStr s) = (s \<noteq> [])"
| "truthy (JArr xs) = (xs \<noteq> [])"
| "truthy (JObj kvs) = (kvs \<noteq> [])"

fun type_name :: "json \<Rightarrow> string" where
  "type_name JNull = ''NoneType''"
| "type_name (JBool b) = ''bool''"
| "type_name (JInt i) = ''int''"
| "type_name (JReal r) = ''float''"
| "type_name (JStr s) = ''str''"
| "type_name (JArr xs) = ''list''"
| "type_name (JObj kvs) = ''dict''"

definition no_attribute :: "json \<Rightarrow> string \<Rightarrow> exn" where
  "no_attribute j a =
     Exn AttributeError ([CHR 0x27] @ type_name j @ [CHR 0x27] @ '' object has no attribute ''
        @ [CHR 0x27] @ a @ [CHR 0x27])"

text \<open>\<open>d.get(k, default)\<close>; only a \<open>dict\<close> has the method.\<close>

fun dict_get :: "json \<Rightarrow> string \<Rightarrow> json \<Rightarrow> exn + json" where
  "dict_get (JObj kvs) k d = Inr (case map_of kvs k of None \<Rightarrow> d | Some v \<Rightarrow> v)"
| "dict_get j k d = Inl (no_attribute j ''get'')"

text \<open>
  A trajectory file is a JSON array of entries of the documented format: a key, when it
  is there, holds a value of its documented type.  A key that may be missing is an
  \<open>option\<close>; a key whose value may also be \<open>null\<close> is a \<open>field\<close>.  The ground truth
  \<open>info.task\<close>, tool-call arguments and parsed actions are free-form JSON.
\<close>

datatype 'a field = Absent | Null | Val 'a

record fn_call =
  fn_name :: "string field"
  fn_arguments :: "json option"

record tool_call =
  tc_function :: "fn_call option"

record message =
  role :: "string option"
  content :: "string field"
  tool_calls :: "tool_call list option"

record info =
  task :: "json option"
  error :: "string option"

record entry =
  task_id :: "int option"
  trial :: "int option"
  reward :: "real option"
  info :: "info option"
  traj :: "message list option"

section \<open>Failure sampler\<close>

text \<open>The filter of \<open>load_and_sample\<close>:
  \<^verbatim>\<open>entry.get("reward", 1.0) == 0.0 and "task" in entry.get("info", {}) and entry.get("traj")\<close>.\<close>

definition is_failure :: "entry \<Rightarrow> bool" where
  "is_failure e =
     ((case reward e of None \<Rightarrow> 1 | Some r \<Rightarrow> r) = 0
      \<and> (case info e of None \<Rightarrow> False | Some i \<Rightarrow> task i \<noteq> None)
      \<and> (case traj e of None \<Rightarrow> False | Some t \<Rightarrow> t \<noteq> []))"

text \<open>\<open>entry.get("trial", 0)\<close>.\<close>

definition trial_or_0 :: "entry \<Rightarrow> int" where
  "trial_or_0 e = (case trial e of None \<Rightarrow> 0 | Some t \<Rightarrow> t)"

text \<open>The deduplication loop: \<open>seen\<close> maps a task id to the entry kept for it.
  \<open>entry["task_id"]\<close> raises \<open>KeyError\<close> on an entry without the key.\<close>

fun dedupe :: "(int \<times> entry) list \<Rightarrow> entry list \<Rightarrow> exn + (int \<times> entry) list" where
  "dedupe seen [] = Inr seen"
| "dedupe seen (e # es) =
     (case task_id e of
        None \<Rightarrow> Inl (Exn KeyError ([CHR 0x27] @ ''task_id'' @ [CHR 0x27]))
      | Some tid \<Rightarrow>
          (case map_of seen tid of
             None \<Rightarrow> dedupe (AList.update tid e seen) es
           | Some kept \<Rightarrow>
               if trial_or_0 e < trial_or_0 kept
               then dedupe (AList.update tid e seen) es
               else dedupe seen es))"

text \<open>
  \<open>load_and_sample\<close> on the parsed file.  \<open>random.seed(seed)\<close> followed by
  \<open>random.sample(unique, sample_size)\<close> is the library's: the parameter \<open>rs\<close> stands for
  it, a function of the seed, the population and the sample size.  Sorting the values of
  \<open>seen\<close> by their \<open>task_id\<close> is sorting its items by their key.
\<close>

definition load_and_sample ::
  "(int \<Rightarrow> entry list \<Rightarrow> nat \<Rightarrow> entry list) \<Rightarrow> entry list \<Rightarrow> int \<Rightarrow> int
     \<Rightarrow> exn + (entry list \<times> nat)" where
  "load_and_sample rs data sample_size seed =
     (let failures = filter is_failure data in
      case dedupe [] failures of
        Inl e \<Rightarrow> Inl e
      | Inr seen \<Rightarrow>
          (let unique = map snd (sort_key fst seen) in
           if int (length unique) \<le> sample_size then Inr (unique, length data)
           else if sample_size < 0
             then Inl (Exn ValueError ''Sample larger than population or is negative'')
           else Inr (rs seed unique (nat sample_size), length data)))"

section \<open>Crash scan\<close>

text \<open>A crash as \<open>scan_file\<close> records it: the classifier's record with the entry's
  \<open>task_id\<close> and \<open>trial\<close> (\<open>None\<close> stands for the default \<open>"?"\<close> of a missing key) and
  the configuration label.\<close>

record crash = crash_info +
  c_task_id :: "int option"
  c_trial :: "int option"
  c_config_label :: string

record traj_length =
  t_task_id :: "int option"
  t_trial :: "int option"
  t_turns :: nat
  t_reward :: real

record scan_result =
  total_entries :: nat
  normal_entries :: nat
  crashes :: "crash list"
  longest_trajs :: "traj_length list"

fun scan_entries :: "string \<Rightarrow> entry list \<Rightarrow> exn + (crash list \<times> traj_length list)" where
  "scan_entries label [] = Inr ([], [])"
| "scan_entries label (e # es) =
     (case (case info e of None \<Rightarrow> None | Some i \<Rightarrow> error i) of
        Some msg \<Rightarrow>
          (case classify_crash msg of
             Inl x \<Rightarrow> Inl x
           | Inr ci \<Rightarrow>
               (case scan_entries label es of
                  Inl x \<Rightarrow> Inl x
                | Inr (cs, ts) \<Rightarrow>
                    Inr (crash_info.extend ci
                           \<lparr> c_task_id = task_id e, c_trial = trial e, c_config_label = label \<rparr>
                         # cs, ts)))
      | None \<Rightarrow>
          (case scan_entries label es of
             Inl x \<Rightarrow> Inl x
           | Inr (cs, ts) \<Rightarrow>
               Inr (cs,
                    \<lparr> t_task_id = task_id e, t_trial = trial e,
                      t_turns = (case traj e of None \<Rightarrow> 0 | Some t \<Rightarrow> length t),
                      t_reward = (case reward e of None \<Rightarrow> 0 | Some r \<Rightarrow> r) \<rparr> # ts)))"

definition scan_file :: "string \<Rightarrow> entry list \<Rightarrow> exn + scan_result" where
  "scan_file label data =
     (case scan_entries label data of
        Inl x \<Rightarrow> Inl x
      | Inr (cs, ts) \<Rightarrow>
          Inr \<lparr> total_entries = length data,
                normal_entries = length data - length cs,
                crashes = cs,
                longest_trajs = take 10 (sort_key (\<lambda>t. - int (t_turns t)) ts) \<rparr>)"

text \<open>The \<open>crashes\<close> array of \<open>save_json\<close>.  The three token keys are written only when
  \<open>tokens_used\<close> is not \<open>None\<close>; the subtraction raises when \<open>token_limit\<close> is.\<close>

record crash_row =
  r_config :: string
  r_task_id :: "int option"
  r_trial :: "int option"
  r_crash_type :: string
  r_error_short :: string
  r_tokens_used :: "int option"
  r_token_limit :: "int option"
  r_over_by :: "int option"

definition crash_row_of :: "crash \<Rightarrow> exn + crash_row" where
  "crash_row_of c =
     (let row = \<lparr> r_config = c_config_label c, r_task_id = c_task_id c, r_trial = c_trial c,
                  r_crash_type = crash_type c, r_error_short = error_short c,
                  r_tokens_used = None, r_token_limit = None, r_over_by = None \<rparr>
      in case tokens_used c of
           None \<Rightarrow> Inr row
         | Some used \<Rightarrow>
            (case token_limit c of
               None \<Rightarrow> Inl (Exn TypeError ''unsupported operand type(s) for -'')
             | Some limit \<Rightarrow>
                 Inr (row \<lparr> r_tokens_used := Some used, r_token_limit := Some limit,
                            r_over_by := Some (used - limit) \<rparr>)))"

fun save_json_crashes :: "crash list \<Rightarrow> exn + crash_row list" where
  "save_json_crashes [] = Inr []"
| "save_json_crashes (c # cs) =
     (case crash_row_of c of
        Inl x \<Rightarrow> Inl x
      | Inr row \<Rightarrow>
          (case save_json_crashes cs of Inl x \<Rightarrow> Inl x | Inr rows \<Rightarrow> Inr (row # rows)))"

section \<open>Prompt builder: policy extraction\<close>

text \<open>\<open>extract_policy\<close> tries three literal markers in the order of its list; the first
  one that occurs in the system text decides where the text is cut.\<close>

definition policy_markers :: "string list" where
  "policy_markers = [''#Available tools'', ''# Available tools'', ''#Available Tools'']"

fun first_marker_cut :: "string list \<Rightarrow> string \<Rightarrow> string" where
  "first_marker_cut [] s = take 3000 s"
| "first_marker_cut (m # ms) s =
     (if str_in m s then strip (split_first m s) else first_marker_cut ms s)"

definition extract_policy :: "string \<Rightarrow> string" where
  "extract_policy system_content = first_marker_cut policy_markers system_content"

text \<open>\<open>r\<close> is the text of \<open>s\<close> in front of the first occurrence of \<open>m\<close>, with the blanks
  at both ends stripped.\<close>

definition cut_before :: "string \<Rightarrow> string \<Rightarrow> string \<Rightarrow> bool" where
  "cut_before m s r =
     (\<exists>pre post. s = pre @ m @ post \<and> (\<forall>i<length pre. \<not> prefix m (drop i s))
        \<and> r = strip pre)"

section \<open>Response parsing\<close>

text \<open>
  \<open>json.loads\<close> is the library's: the parameter \<open>jl\<close> stands for it, \<open>None\<close> for a
  \<open>JSONDecodeError\<close>.  The interpreter runs with \<open>DEBUG = False\<close>, its default, so the
  debug prints are left out.
\<close>

text \<open>\<^verbatim>\<open>"primary_category" in result\<close>: a key of a dict, a substring of a string, a member
  of a list; any other value is not iterable.\<close>

fun has_primary_category :: "json \<Rightarrow> exn + bool" where
  "has_primary_category (JObj kvs) = Inr (''primary_category'' \<in> fst ` set kvs)"
| "has_primary_category (JStr s) = Inr (str_in ''primary_category'' s)"
| "has_primary_category (JArr xs) = Inr (JStr ''primary_category'' \<in> set xs)"
| "has_primary_category j =
     Inl (Exn TypeError (''argument of type '' @ [CHR 0x27] @ type_name j @ [CHR 0x27]
            @ '' is not iterable''))"

definition backticks :: string where
  "backticks = [CHR 0x60, CHR 0x60, CHR 0x60]"

definition quoted :: "string \<Rightarrow> string" where
  "quoted s = [CHR 0x22] @ s @ [CHR 0x22]"

text \<open>The pattern of strategy 2, a fence of three backticks: fence, \<^verbatim>\<open>(?:json)?\s*(\{.*?\})\s*\<close>,
  fence, with \<open>DOTALL\<close>.\<close>

definition fence_pattern :: regex where
  "fence_pattern =
     Seq (Lit backticks) (Seq (Opt (Lit ''json'')) (Seq (Star Space)
       (Seq (Group (Seq (Lit ''{'') (Seq (LazyStar AnyChar) (Lit ''}''))))
         (Seq (Star Space) (Lit backticks)))))"

text \<open>The pattern of strategy 3: \<^verbatim>\<open>\{[^{}]*"primary_category"[^{}]*\}\<close>.\<close>

definition flat_pattern :: regex where
  "flat_pattern =
     Seq (Lit ''{'') (Seq (Star (NoneOf ''{}'')) (Seq (Lit (quoted ''primary_category''))
       (Seq (Star (NoneOf ''{}'')) (Lit ''}''))))"

text \<open>A text without braces, and the capturing group of the fence pattern.\<close>

definition brace_free :: "string \<Rightarrow> bool" where
  "brace_free s = list_all (in_class (NoneOf ''{}'')) s"


definition parse_error_verdict :: "string \<Rightarrow> json" where
  "parse_error_verdict text =
     JObj [(''primary_category'', JStr ''parse_error''),
           (''sub_category'', JStr ''none''),
           (''explanation'', JStr (''Could not parse LLM response: '' @ take 200 text))]"

definition strategy3 :: "(string \<Rightarrow> json option) \<Rightarrow> string \<Rightarrow> json" where
  "strategy3 jl text =
     (case re_search flat_pattern text of
        None \<Rightarrow> parse_error_verdict text
      | Some (g0, g1) \<Rightarrow>
          (case jl g0 of Some v \<Rightarrow> v | None \<Rightarrow> parse_error_verdict text))"

definition strategy2 :: "(string \<Rightarrow> json option) \<Rightarrow> string \<Rightarrow> json" where
  "strategy2 jl text =
     (case re_search fence_pattern text of
        Some (g0, Some g1) \<Rightarrow>
          (case jl g1 of Some v \<Rightarrow> v | None \<Rightarrow> strategy3 jl text)
      | _ \<Rightarrow> strategy3 jl text)"

definition parse_response :: "(string \<Rightarrow> json option) \<Rightarrow> string \<Rightarrow> exn + json" where
  "parse_response jl response =
     (let text = strip response in
      case jl text of
        None \<Rightarrow> Inr (strategy2 jl text)
      | Some result \<Rightarrow>
          (case has_primary_category result of
             Inl e \<Rightarrow> Inl e
           | Inr True \<Rightarrow> Inr result
           | Inr False \<Rightarrow> Inr (strategy2 jl text)))"

section \<open>Actions the agent took\<close>

text \<open>The pattern \<^verbatim>\<open>Action:\s*(\{.*\})\<close> with \<open>DOTALL\<close>.\<close>

definition action_pattern :: regex where
  "action_pattern =
     Seq (Lit ''Action:'') (Seq (Star Space)
       (Group (Seq (Lit ''{'') (Seq (Star AnyChar) (Lit ''}'')))))"

text \<open>\<open>msg.get("content", "") or ""\<close>.\<close>

definition content_or_empty :: "message \<Rightarrow> string" where
  "content_or_empty msg = (case content msg of Val s \<Rightarrow> s | _ \<Rightarrow> [])"

text \<open>One entry of \<open>tool_calls\<close>.  \<open>json.loads\<close> of the arguments raises \<open>TypeError\<close> on a
  value that is not a string and \<open>JSONDecodeError\<close> on a string that is not JSON; both are
  caught, and the arguments are then kept as they are.  A missing \<open>function\<close> is the empty
  dict, whose name defaults to \<open>unknown\<close>.\<close>

definition tool_call_action :: "(string \<Rightarrow> json option) \<Rightarrow> tool_call \<Rightarrow> json list" where
  "tool_call_action jl tc =
     (case tc_function tc of
        None \<Rightarrow> []
      | Some fn \<Rightarrow>
          (let args = (case fn_arguments fn of
                         None \<Rightarrow> (case jl ''{}'' of Some v \<Rightarrow> v | None \<Rightarrow> JObj [])
                       | Some (JStr a) \<Rightarrow> (case jl a of Some v \<Rightarrow> v | None \<Rightarrow> JStr a)
                       | Some other \<Rightarrow> other)
           in case fn_name fn of
                Absent \<Rightarrow> []
              | Null \<Rightarrow> [JObj [(''name'', JNull), (''arguments'', args)]]
              | Val name \<Rightarrow>
                  if name = ''respond'' \<or> name = ''unknown'' then []
                  else [JObj [(''name'', JStr name), (''arguments'', args)]]))"

text \<open>An \<open>Action:\<close> object in the content of a message.  \<open>action.get("name")\<close> is \<open>None\<close>
  for a missing key and for \<open>null\<close>; it raises on a value that is not a dict, and that
  exception is not caught.\<close>

definition content_action :: "(string \<Rightarrow> json option) \<Rightarrow> string \<Rightarrow> exn + json list" where
  "content_action jl text =
     (case re_search action_pattern text of
        Some (g0, Some g1) \<Rightarrow>
          (case jl g1 of
             None \<Rightarrow> Inr []
           | Some (JObj kvs) \<Rightarrow>
               (case map_of kvs ''name'' of
                  None \<Rightarrow> Inr []
                | Some JNull \<Rightarrow> Inr []
                | Some name \<Rightarrow> if name = JStr ''respond'' then Inr [] else Inr [JObj kvs])
           | Some other \<Rightarrow> Inl (no_attribute other ''get''))
      | _ \<Rightarrow> Inr [])"

definition message_actions :: "(string \<Rightarrow> json option) \<Rightarrow> message \<Rightarrow> exn + json list" where
  "message_actions jl msg =
     (if role msg \<noteq> Some ''assistant'' then Inr []
      else case tool_calls msg of
             Some (tc # tcs) \<Rightarrow> Inr (concat (map (tool_call_action jl) (tc # tcs)))
           | _ \<Rightarrow> content_action jl (content_or_empty msg))"

fun extract_agent_actions :: "(string \<Rightarrow> json option) \<Rightarrow> message list \<Rightarrow> exn + json list" where
  "extract_agent_actions jl [] = Inr []"
| "extract_agent_actions jl (msg # msgs) =
     (case message_actions jl msg of
        Inl e \<Rightarrow> Inl e
      | Inr acts \<Rightarrow>
          (case extract_agent_actions jl msgs of
             Inl e \<Rightarrow> Inl e
           | Inr rest \<Rightarrow> Inr (acts @ rest)))"


section \<open>Prompt builder: the prompt\<close>

text \<open>
  \<open>json.dumps(x, indent=2)\<close> and \<open>str(x)\<close> are the library's: the parameters \<open>jd\<close> and
  \<open>ps\<close> stand for them.  An f-string prints a string as it is and every other value with
  \<open>str\<close>.
\<close>

definition fmt :: "(json \<Rightarrow> string) \<Rightarrow> json \<Rightarrow> string" where
  "fmt ps j = (case j of JStr s \<Rightarrow> s | _ \<Rightarrow> ps j)"

definition nl :: string where
  "nl = [CHR 0x0A]"

text \<open>\<open>sep.join(xs)\<close>.\<close>

fun join :: "string \<Rightarrow> string list \<Rightarrow> string" where
  "join sep [] = []"
| "join sep [x] = x"
| "join sep (x # y # ys) = x @ sep @ join sep (y # ys)"

text \<open>\<open>str.upper\<close>, on the letters a to z; the roles of a trajectory are ASCII words.\<close>

definition upper :: "string \<Rightarrow> string" where
  "upper s =
     map (\<lambda>c. case map_of (zip ''abcdefghijklmnopqrstuvwxyz'' ''ABCDEFGHIJKLMNOPQRSTUVWXYZ'') c of
                None \<Rightarrow> c | Some u \<Rightarrow> u) s"

text \<open>\<open>re.sub(pattern, '', s)\<close>: every match, found from left to right, is deleted.  The
  counter is the number of characters of the current match still to delete; an empty
  match deletes nothing.\<close>

fun re_sub_del :: "regex \<Rightarrow> nat \<Rightarrow> string \<Rightarrow> string" where
  "re_sub_del r k [] = []"
| "re_sub_del r (Suc k) (c # cs) = re_sub_del r k cs"
| "re_sub_del r 0 (c # cs) =
     (case rmatch r (c # cs) of
        [] \<Rightarrow> c # re_sub_del r 0 cs
      | (rest, g) # ms \<Rightarrow>
          (if length rest < length (c # cs)
           then re_sub_del r (length (c # cs) - length rest - 1) cs
           else c # re_sub_del r 0 cs))"

text \<open>\<^verbatim>\<open><think>.*?</think>\s*\<close> with \<open>DOTALL\<close>.\<close>

definition think_pattern :: regex where
  "think_pattern =
     Seq (Lit ''<think>'') (Seq (LazyStar AnyChar) (Seq (Lit ''</think>'') (Star Space)))"

text \<open>\<^verbatim>\<open>f"  [Tool Call] {fn.get('name')}({fn.get('arguments', '{}')})"\<close>.\<close>

definition tool_call_line :: "(json \<Rightarrow> string) \<Rightarrow> tool_call \<Rightarrow> string" where
  "tool_call_line ps tc =
     (let name = (case tc_function tc of
                    None \<Rightarrow> ''None''
                  | Some fn \<Rightarrow> (case fn_name fn of Val s \<Rightarrow> s | _ \<Rightarrow> ''None''));
          args = (case tc_function tc of
                    None \<Rightarrow> ''{}''
                  | Some fn \<Rightarrow> (case fn_arguments fn of None \<Rightarrow> ''{}'' | Some j \<Rightarrow> fmt ps j))
      in ''  [Tool Call] '' @ name @ ''('' @ args @ '')'')"

text \<open>One message of \<open>format_conversation\<close>: its line, or nothing when the content is
  blank.\<close>

definition format_message :: "(json \<Rightarrow> string) \<Rightarrow> nat \<Rightarrow> message \<Rightarrow> string option" where
  "format_message ps max_api_output_len msg =
     (let role_text = upper (case role msg of None \<Rightarrow> ''unknown'' | Some r \<Rightarrow> r);
          c0 = content_or_empty msg;
          c1 = (if role msg = Some ''user'' \<and> str_in ''<think>'' c0
                then re_sub_del think_pattern 0 c0 else c0);
          c2 = (if role msg = Some ''user'' \<and> prefix ''API output:'' c1
                     \<and> length c1 > max_api_output_len
                then take max_api_output_len c1 @ '' ... [truncated]'' else c1);
          c3 = (case tool_calls msg of
                  Some (tc # tcs) \<Rightarrow>
                    if role msg = Some ''assistant''
                    then strip (c2 @ nl @ join nl (map (tool_call_line ps) (tc # tcs)))
                    else c2
                | _ \<Rightarrow> c2)
      in if strip c3 \<noteq> [] then Some (''['' @ role_text @ '']: '' @ strip c3) else None)"

definition format_conversation :: "(json \<Rightarrow> string) \<Rightarrow> nat \<Rightarrow> message list \<Rightarrow> string" where
  "format_conversation ps max_api_output_len traj_messages =
     join (nl @ nl) (List.map_filter (format_message ps max_api_output_len) traj_messages)"

text \<open>The sentence for an empty list of expected actions; its dash is U+2014 in the
  source, outside the characters of this model, and written as a hyphen.\<close>

definition no_actions_text :: string where
  "no_actions_text =
     ''No actions required - the agent should have refused the request ''
     @ ''or correctly identified it as out of scope.''"

text \<open>The numbered lines of \<open>format_ground_truth\<close>, from number \<open>i\<close> on.\<close>

fun ground_truth_lines ::
  "(json \<Rightarrow> string) \<Rightarrow> (json \<Rightarrow> string) \<Rightarrow> nat \<Rightarrow> json list \<Rightarrow> exn + string list" where
  "ground_truth_lines jd ps i [] = Inr []"
| "ground_truth_lines jd ps i (action # rest) =
     (case dict_get action ''name'' (JStr ''unknown'') of
        Inl e \<Rightarrow> Inl e
      | Inr name \<Rightarrow>
          (case dict_get action ''arguments'' (JObj []) of
             Inl e \<Rightarrow> Inl e
           | Inr dflt \<Rightarrow>
               (case dict_get action ''kwargs'' dflt of
                  Inl e \<Rightarrow> Inl e
                | Inr kwargs \<Rightarrow>
                    (case ground_truth_lines jd ps (Suc i) rest of
                       Inl e \<Rightarrow> Inl e
                     | Inr ls \<Rightarrow>
                         Inr ((str_of_nat i @ ''. '' @ fmt ps name @ ''('' @ jd kwargs @ '')'')
                              # ls)))))"

text \<open>\<open>format_ground_truth\<close>.  Iterating a non-empty string or dict yields strings, which
  have no \<open>get\<close>; a number or \<open>True\<close> cannot be iterated.\<close>

definition format_ground_truth ::
  "(json \<Rightarrow> string) \<Rightarrow> (json \<Rightarrow> string) \<Rightarrow> json \<Rightarrow> exn + string" where
  "format_ground_truth jd ps actions =
     (if \<not> truthy actions then Inr no_actions_text
      else case actions of
             JArr xs \<Rightarrow>
               (case ground_truth_lines jd ps 1 xs of
                  Inl e \<Rightarrow> Inl e
                | Inr ls \<Rightarrow> Inr (join nl ls))
           | JStr s \<Rightarrow> Inl (no_attribute (JStr s) ''get'')
           | JObj kvs \<Rightarrow> Inl (no_attribute (JStr []) ''get'')
           | other \<Rightarrow>
               Inl (Exn TypeError ([CHR 0x27] @ type_name other @ [CHR 0x27]
                      @ '' object is not iterable'')))"

definition ERROR_TAXONOMY :: "(string \<times> string) list" where
  "ERROR_TAXONOMY =
     [(''wrong_tool'',
       ''Agent called the wrong tool entirely ''
       @ ''(e.g., cancel_reservation when it should have called update_reservation_flights)''),
      (''wrong_arguments'',
       ''Correct tool but wrong parameters ''
       @ ''(e.g., wrong reservation_id, wrong payment_method, wrong flight number, wrong date)''),
      (''policy_violation'',
       ''Agent violated a domain rule ''
       @ ''(e.g., modifying basic economy, cancelling without insurance, giving unauthorized refund, ''
       @ ''skipping user authentication)''),
      (''incomplete_execution'',
       ''Agent completed some but not all required actions ''
       @ ''(e.g., changed flights but forgot to update baggage or passengers)''),
      (''premature_escalation'',
       ''Agent transferred to a human agent when it could have handled the request ''
       @ ''with available tools''),
      (''information_error'',
       ''Agent gave the user incorrect information (wrong price, wrong policy detail, ''
       @ ''wrong flight status) which affected the conversation outcome''),
      (''reasoning_failure'',
       ''Agent misunderstood user intent or made a wrong plan despite having ''
       @ ''correct information available from tools and conversation''),
      (''user_simulator_error'',
       ''The user simulator gave ambiguous, contradictory, or hallucinated instructions ''
       @ ''that caused the agent to fail through no fault of its own''),
      (''context_or_format_error'',
       ''Conversation cut short (context window overflow), malformed JSON action, ''
       @ ''or other infrastructure/parsing failure'')]"

definition taxonomy_text :: string where
  "taxonomy_text = join nl (map (\<lambda>(cat_id, description). ''  - '' @ cat_id @ '': '' @ description)
                              ERROR_TAXONOMY)"

text \<open>The policy section of the prompt.  \<open>traj[0].get("content", "")\<close> of a system message
  is \<open>None\<close> when the content is \<open>null\<close>, and \<open>extract_policy\<close> raises on it.\<close>

definition prompt_policy :: "message list \<Rightarrow> exn + string" where
  "prompt_policy msgs =
     (case msgs of
        [] \<Rightarrow> Inr ''No policy available''
      | m # ms \<Rightarrow>
          if role m = Some ''system'' then
            (case content m of
               Absent \<Rightarrow> Inr (extract_policy [])
             | Null \<Rightarrow> Inl (Exn TypeError (''argument of type '' @ [CHR 0x27] @ ''NoneType''
                                 @ [CHR 0x27] @ '' is not iterable''))
             | Val s \<Rightarrow> Inr (extract_policy s))
          else Inr ''No policy available'')"

text \<open>\<open>failure.get("traj", [])\<close> and \<open>failure.get("info", {}).get("task", {})\<close>.\<close>

definition traj_or_empty :: "entry \<Rightarrow> message list" where
  "traj_or_empty failure = (case traj failure of None \<Rightarrow> [] | Some t \<Rightarrow> t)"

definition task_or_empty :: "entry \<Rightarrow> json" where
  "task_or_empty failure =
     (case info failure of
        None \<Rightarrow> JObj []
      | Some i \<Rightarrow> (case task i of None \<Rightarrow> JObj [] | Some j \<Rightarrow> j))"

definition prompt_text :: "string \<Rightarrow> string \<Rightarrow> string \<Rightarrow> string \<Rightarrow> string" where
  "prompt_text instruction gt_text policy conv_text =
     ''You are an expert evaluator analyzing a FAILED AI agent interaction ''
     @ ''from the tau-bench benchmark.'' @ nl @ nl
     @ ''The agent was supposed to help a simulated user with a customer service task ''
     @ ''but FAILED (reward = 0).'' @ nl
     @ ''Your job: figure out WHY it failed by comparing what the agent did ''
     @ ''vs what it should have done.'' @ nl @ nl
     @ ''## User'' @ [CHR 0x27] @ ''s Goal'' @ nl
     @ instruction @ nl @ nl
     @ ''## Expected Solution (Ground Truth)'' @ nl
     @ ''These are the correct actions the agent should have taken:'' @ nl
     @ gt_text @ nl @ nl
     @ ''## Domain Policy (Rules the Agent Must Follow)'' @ nl
     @ policy @ nl @ nl
     @ ''## Actual Conversation'' @ nl
     @ conv_text @ nl @ nl
     @ ''## Error Taxonomy'' @ nl
     @ ''Classify this failure into EXACTLY ONE of these categories:'' @ nl
     @ taxonomy_text @ nl @ nl
     @ ''Respond with ONLY valid JSON, nothing else:'' @ nl
     @ ''{'' @ quoted ''primary_category'' @ '': '' @ quoted ''<category_id>'' @ '', ''
     @ quoted ''sub_category'' @ '': '' @ quoted ''<brief specific sub-type>'' @ '', ''
     @ quoted ''explanation'' @ '': '' @ quoted ''<1-2 sentence explanation>'' @ ''}''"

definition build_prompt ::
  "(json \<Rightarrow> string) \<Rightarrow> (json \<Rightarrow> string) \<Rightarrow> entry \<Rightarrow> exn + string" where
  "build_prompt jd ps failure =
     (let msgs = traj_or_empty failure; tk = task_or_empty failure in
      case prompt_policy msgs of
        Inl e \<Rightarrow> Inl e
      | Inr policy \<Rightarrow>
          (case dict_get tk ''actions'' (JArr []) of
             Inl e \<Rightarrow> Inl e
           | Inr actions \<Rightarrow>
               (case format_ground_truth jd ps actions of
                  Inl e \<Rightarrow> Inl e
                | Inr gt_text \<Rightarrow>
                    (let conv_text = format_conversation ps 500
                                       (filter (\<lambda>m. role m \<noteq> Some ''system'') msgs)
                     in case dict_get tk ''instruction'' (JStr ''No instruction available'') of
                          Inl e \<Rightarrow> Inl e
                        | Inr instruction \<Rightarrow>
                            Inr (prompt_text (fmt ps instruction) gt_text policy conv_text)))))"

section \<open>Classifier client\<close>

text \<open>
  The world outside the process: \<open>call_llm\<close> answers the \<open>n\<close>-th external call of a run
  with a text or with an exception, and the run leaves a trace of its calls and sleeps.
  \<open>time.sleep\<close> raises \<open>ValueError\<close> on a negative length.
\<close>

datatype event = Called string | Slept real

fun is_call :: "event \<Rightarrow> bool" where
  "is_call (Called p) = True"
| "is_call (Slept d) = False"

definition n_calls :: "event list \<Rightarrow> nat" where
  "n_calls evs = length (filter is_call evs)"

record env =
  json_loads :: "string \<Rightarrow> json option"
  json_dumps :: "json \<Rightarrow> string"
  py_str :: "json \<Rightarrow> string"
  random_sample :: "int \<Rightarrow> entry list \<Rightarrow> nat \<Rightarrow> entry list"
  call_llm :: "nat \<Rightarrow> string \<Rightarrow> exn + string"
  round1 :: "real \<Rightarrow> real"

definition valid_categories :: "string list" where
  "valid_categories = map fst ERROR_TAXONOMY @ [''parse_error'', ''api_error'']"

text \<open>The validation step: \<open>result.get("primary_category") not in valid\<close>, and the coercion
  to \<open>other\<close>.  Only a dict has \<open>get\<close>; a list or a dict cannot be looked up in a set.\<close>

definition validate :: "json \<Rightarrow> exn + json" where
  "validate result =
     (case result of
        JObj kvs \<Rightarrow>
          (case map_of kvs ''primary_category'' of
             Some (JStr c) \<Rightarrow>
               if c \<in> set valid_categories then Inr (JObj kvs)
               else Inr (JObj (AList.update ''primary_category'' (JStr ''other'') kvs))
           | Some (JArr xs) \<Rightarrow> Inl (Exn TypeError ''unhashable type: list'')
           | Some (JObj m) \<Rightarrow> Inl (Exn TypeError ''unhashable type: dict'')
           | _ \<Rightarrow> Inr (JObj (AList.update ''primary_category'' (JStr ''other'') kvs)))
      | other \<Rightarrow> Inl (no_attribute other ''get''))"

definition sleep :: "real \<Rightarrow> event list \<Rightarrow> exn + event list" where
  "sleep d evs =
     (if d < 0 then Inl (Exn ValueError ''sleep length must be non-negative'')
      else Inr (evs @ [Slept d]))"

text \<open>The body of the \<open>try\<close> block: one external call, parsing, validation, the
  rate-limiting sleep.\<close>

definition attempt :: "env \<Rightarrow> string \<Rightarrow> real \<Rightarrow> event list \<Rightarrow> (exn + json) \<times> event list" where
  "attempt ev prompt delay evs =
     (let evs1 = evs @ [Called prompt] in
      case call_llm ev (n_calls evs) prompt of
        Inl e \<Rightarrow> (Inl e, evs1)
      | Inr response_text \<Rightarrow>
          (case parse_response (json_loads ev) response_text of
             Inl e \<Rightarrow> (Inl e, evs1)
           | Inr parsed \<Rightarrow>
               (case validate parsed of
                  Inl e \<Rightarrow> (Inl e, evs1)
                | Inr verdict \<Rightarrow>
                    (case sleep delay evs1 of
                       Inl e \<Rightarrow> (Inl e, evs1)
                     | Inr evs2 \<Rightarrow> (Inr verdict, evs2)))))"

definition api_error_verdict :: "exn \<Rightarrow> json" where
  "api_error_verdict e =
     JObj [(''primary_category'', JStr ''api_error''),
           (''sub_category'', JStr ''none''),
           (''explanation'', JStr (''API failed after retry: '' @ take 200 (exn_str e)))]"

text \<open>\<open>classify_one\<close>: the prompt is built in front of the \<open>try\<close> block; the loop over
  \<open>range(2)\<close> is unrolled.\<close>

definition classify_one :: "env \<Rightarrow> entry \<Rightarrow> real \<Rightarrow> event list \<Rightarrow> (exn + json) \<times> event list" where
  "classify_one ev failure delay evs =
     (case build_prompt (json_dumps ev) (py_str ev) failure of
        Inl e \<Rightarrow> (Inl e, evs)
      | Inr prompt \<Rightarrow>
          (case attempt ev prompt delay evs of
             (Inr verdict, evs1) \<Rightarrow> (Inr verdict, evs1)
           | (Inl e, evs1) \<Rightarrow>
               (case attempt ev prompt delay (evs1 @ [Slept 2]) of
                  (Inr verdict, evs2) \<Rightarrow> (Inr verdict, evs2)
                | (Inl e2, evs2) \<Rightarrow> (Inr (api_error_verdict e2), evs2))))"

section \<open>Resumable run controller\<close>

record classification =
  cl_task_id :: int
  cl_trial :: int
  cl_instruction :: json
  cl_ground_truth_actions :: json
  cl_agent_actions :: "json list"
  cl_classification :: json

record summary_row =
  s_category :: json
  s_count :: nat
  s_percentage :: real

record run_result =
  res_config :: string
  res_file :: string
  res_total_tasks :: nat
  res_total_failures_in_file :: nat
  res_unique_failures_sampled :: nat
  res_summary :: "summary_row list"
  res_classifications :: "classification list"

text \<open>\<open>c["classification"]["primary_category"]\<close>, used as a key of the counts.\<close>

definition category_of :: "classification \<Rightarrow> exn + json" where
  "category_of c =
     (case cl_classification c of
        JObj kvs \<Rightarrow>
          (case map_of kvs ''primary_category'' of
             None \<Rightarrow> Inl (Exn KeyError ([CHR 0x27] @ ''primary_category'' @ [CHR 0x27]))
           | Some (JArr xs) \<Rightarrow> Inl (Exn TypeError ''unhashable type: list'')
           | Some (JObj m) \<Rightarrow> Inl (Exn TypeError ''unhashable type: dict'')
           | Some cat \<Rightarrow> Inr cat)
      | JArr xs \<Rightarrow> Inl (Exn TypeError ''list indices must be integers or slices, not str'')
      | JStr s \<Rightarrow> Inl (Exn TypeError ''string indices must be integers'')
      | other \<Rightarrow> Inl (Exn TypeError ([CHR 0x27] @ type_name other @ [CHR 0x27]
                        @ '' object is not subscriptable'')))"

fun count_categories :: "(json \<times> nat) list \<Rightarrow> classification list \<Rightarrow> exn + (json \<times> nat) list" where
  "count_categories counts [] = Inr counts"
| "count_categories counts (c # cs) =
     (case category_of c of
        Inl e \<Rightarrow> Inl e
      | Inr cat \<Rightarrow>
          count_categories
            (AList.update cat (Suc (case map_of counts cat of None \<Rightarrow> 0 | Some n \<Rightarrow> n)) counts) cs)"

text \<open>\<open>compute_summary\<close>.  \<open>round(x, 1)\<close> on floats is the library's: the parameter \<open>rnd\<close>
  stands for it.  Python's sort is stable, as \<open>sort_key\<close> is.\<close>

definition compute_summary :: "(real \<Rightarrow> real) \<Rightarrow> classification list \<Rightarrow> exn + summary_row list" where
  "compute_summary rnd classifications =
     (case count_categories [] classifications of
        Inl e \<Rightarrow> Inl e
      | Inr counts \<Rightarrow>
          (let n = length classifications in
           Inr (map (\<lambda>(cat, k). \<lparr> s_category = cat, s_count = k,
                                   s_percentage = (if n > 0 then rnd (100 * real k / real n) else 0) \<rparr>)
                  (sort_key (\<lambda>(cat, k). - int k) counts))))"

text \<open>
  The files of one configuration in the output directory, and the trace of the run.
  A file holds the value that was dumped into it.
\<close>

record world =
  result_file :: "run_result option"
  partial_file :: "classification list option"
  events :: "event list"

text \<open>How a call of \<open>process_file\<close> ends: it returns, it raises, it leaves through
  \<open>sys.exit\<close>, or the process is killed from outside.\<close>

datatype 'a outcome = Returned 'a | Raised exn | Exited int | Killed

text \<open>\<open>len(set(e["task_id"] for e in data))\<close>.\<close>

fun task_ids :: "entry list \<Rightarrow> exn + int list" where
  "task_ids [] = Inr []"
| "task_ids (e # es) =
     (case task_id e of
        None \<Rightarrow> Inl (Exn KeyError ([CHR 0x27] @ ''task_id'' @ [CHR 0x27]))
      | Some tid \<Rightarrow> (case task_ids es of Inl x \<Rightarrow> Inl x | Inr tids \<Rightarrow> Inr (tid # tids)))"

text \<open>The entries the loop does not skip: \<open>info.task\<close> is there and true.\<close>

definition classifiable :: "entry \<Rightarrow> bool" where
  "classifiable failure =
     (case info failure of
        None \<Rightarrow> False
      | Some i \<Rightarrow> (case task i of None \<Rightarrow> False | Some tk \<Rightarrow> truthy tk))"

text \<open>
  The classification loop over the failures from \<open>start_idx\<close> on.  The process can be
  killed between two iterations: \<open>kill = Some k\<close> kills it once it has written \<open>k\<close>
  checkpoints, \<open>None\<close> lets it run.  \<open>failure.get("info", {}).get("task")\<close> is \<open>None\<close>
  without the key; a task that is not true is skipped.
\<close>

fun classify_loop ::
  "env \<Rightarrow> real \<Rightarrow> nat option \<Rightarrow> entry list \<Rightarrow> classification list \<Rightarrow> world
     \<Rightarrow> (classification list) outcome \<times> world" where
  "classify_loop ev delay kill [] classifications w =
     (if kill = Some 0 then (Killed, w) else (Returned classifications, w))"
| "classify_loop ev delay kill (failure # rest) classifications w =
     (if kill = Some 0 then (Killed, w)
      else case task_id failure of
        None \<Rightarrow> (Raised (Exn KeyError ([CHR 0x27] @ ''task_id'' @ [CHR 0x27])), w)
      | Some tid \<Rightarrow>
         (case (case info failure of None \<Rightarrow> None | Some i \<Rightarrow> task i) of
            None \<Rightarrow> classify_loop ev delay kill rest classifications w
          | Some tk \<Rightarrow>
              if \<not> truthy tk then classify_loop ev delay kill rest classifications w
              else
               (case classify_one ev failure delay (events w) of
                  (Inl e, evs) \<Rightarrow> (Raised e, w \<lparr> events := evs \<rparr>)
                | (Inr cls, evs) \<Rightarrow>
                   (case dict_get tk ''instruction'' (JStr []) of
                      Inl e \<Rightarrow> (Raised e, w \<lparr> events := evs \<rparr>)
                    | Inr instruction \<Rightarrow>
                       (case dict_get tk ''actions'' (JArr []) of
                          Inl e \<Rightarrow> (Raised e, w \<lparr> events := evs \<rparr>)
                        | Inr actions \<Rightarrow>
                           (case extract_agent_actions (json_loads ev) (traj_or_empty failure) of
                              Inl e \<Rightarrow> (Raised e, w \<lparr> events := evs \<rparr>)
                            | Inr agent_actions \<Rightarrow>
                               (let classifications' = classifications @
                                      [\<lparr> cl_task_id = tid, cl_trial = trial_or_0 failure,
                                         cl_instruction = instruction,
                                         cl_ground_truth_actions = actions,
                                         cl_agent_actions = agent_actions,
                                         cl_classification = cls \<rparr>]
                                in classify_loop ev delay (map_option (\<lambda>k. k - 1) kill) rest
                                     classifications'
                                     (w \<lparr> events := evs,
                                          partial_file := Some classifications' \<rparr>))))))))"

text \<open>
  \<open>process_file\<close> on the parsed trajectory file \<open>data\<close>.  It calls
  \<open>load_and_sample(filepath, sample_size)\<close>, so the seed is the default 42 of that
  function.
\<close>

definition process_file ::
  "env \<Rightarrow> entry list \<Rightarrow> string \<Rightarrow> string \<Rightarrow> int \<Rightarrow> real \<Rightarrow> bool \<Rightarrow> bool \<Rightarrow> nat option
     \<Rightarrow> world \<Rightarrow> (run_result option) outcome \<times> world" where
  "process_file ev data config_name filepath sample_size delay force dry_run kill w =
     (case (if force then None else result_file w) of
        Some stored \<Rightarrow> (Returned (Some stored), w)
      | None \<Rightarrow>
         (case load_and_sample (random_sample ev) data sample_size 42 of
            Inl e \<Rightarrow> (Raised e, w)
          | Inr (failures, n_entries) \<Rightarrow>
             (case task_ids data of
                Inl e \<Rightarrow> (Raised e, w)
              | Inr tids \<Rightarrow>
                 (case failures of
                    [] \<Rightarrow> (Returned None, w)
                  | first # others \<Rightarrow>
                     if dry_run then
                       (case build_prompt (json_dumps ev) (py_str ev) first of
                          Inl e \<Rightarrow> (Raised e, w)
                        | Inr prompt \<Rightarrow> (Exited 0, w))
                     else
                       (let classifications =
                              (case (if force then None else partial_file w) of
                                 None \<Rightarrow> []
                               | Some partial \<Rightarrow> partial);
                            start_idx = length classifications
                        in case classify_loop ev delay kill (drop start_idx failures)
                                  classifications w of
                             (Raised e, w') \<Rightarrow> (Raised e, w')
                           | (Killed, w') \<Rightarrow> (Killed, w')
                           | (Exited c, w') \<Rightarrow> (Exited c, w')
                           | (Returned classifications', w') \<Rightarrow>
                              (case compute_summary (round1 ev) classifications' of
                                 Inl e \<Rightarrow> (Raised e, w')
                               | Inr summary \<Rightarrow>
                                  (let result =
                                     \<lparr> res_config = config_name, res_file = filepath,
                                       res_total_tasks = length (remdups tids),
                                       res_total_failures_in_file =
                                         length (filter (\<lambda>e. (case reward e of None \<Rightarrow> 1
                                                                | Some r \<Rightarrow> r) = 0) data),
                                       res_unique_failures_sampled = length failures,
                                       res_summary = summary,
                                       res_classifications = classifications' \<rparr>
                                   in (Returned (Some result),
                                       w' \<lparr> result_file := Some result,
                                            partial_file := None \<rparr>))))))))"

text \<open>The options of a run, and what \<open>main\<close> does with one discovered file: the call of
  \<open>process_file\<close> passes the sample size, the delay and the two flags.\<close>

record args =
  a_sample_size :: int
  a_delay :: real
  a_force :: bool
  a_dry_run :: bool
  a_seed :: int

definition main_process_file ::
  "env \<Rightarrow> args \<Rightarrow> entry list \<Rightarrow> string \<Rightarrow> string \<Rightarrow> nat option \<Rightarrow> world
     \<Rightarrow> (run_result option) outcome \<times> world" where
  "main_process_file ev a data config_name filepath kill w =
     process_file ev data config_name filepath (a_sample_size a) (a_delay a) (a_force a)
       (a_dry_run a) kill w"

section \<open>A JSON reader for running the model\<close>

text \<open>
  Where a concrete run is evaluated, \<open>json_subset_loads\<close> stands in for \<open>json.loads\<close>.  It
  reads the JSON texts made of objects, arrays, strings with the single-character
  escapes, integers, \<open>true\<close>, \<open>false\<close> and \<open>null\<close>, and returns \<open>None\<close> on every other
  text.  A repeated key keeps its first position and its last value, as a \<open>dict\<close> does.
  The first argument of the parsing functions bounds the number of their calls; a list
  twice as long as the text is enough.
\<close>

definition json_ws :: "char \<Rightarrow> bool" where
  "json_ws c = (c = CHR '' '' \<or> c = CHR 0x09 \<or> c = CHR 0x0A \<or> c = CHR 0x0D)"

definition skip_ws :: "string \<Rightarrow> string" where
  "skip_ws s = dropWhile json_ws s"

fun unescape :: "char \<Rightarrow> char option" where
  "unescape c =
     (if c = CHR 0x22 then Some (CHR 0x22)
      else if c = CHR 0x5C then Some (CHR 0x5C)
      else if c = CHR ''/'' then Some (CHR ''/'')
      else if c = CHR ''b'' then Some (CHR 0x08)
      else if c = CHR ''f'' then Some (CHR 0x0C)
      else if c = CHR ''n'' then Some (CHR 0x0A)
      else if c = CHR ''r'' then Some (CHR 0x0D)
      else if c = CHR ''t'' then Some (CHR 0x09)
      else None)"

fun parse_string_body :: "string \<Rightarrow> (string \<times> string) option" where
  "parse_string_body [] = None"
| "parse_string_body [c] = (if c = CHR 0x22 then Some ([], []) else None)"
| "parse_string_body (c # d # rest) =
     (if c = CHR 0x22 then Some ([], d # rest)
      else if c = CHR 0x5C then
        (case unescape d of
           None \<Rightarrow> None
         | Some u \<Rightarrow> (case parse_string_body rest of
                        None \<Rightarrow> None
                      | Some (str, r) \<Rightarrow> Some (u # str, r)))
      else if (of_char c :: nat) < 32 then None
      else (case parse_string_body (d # rest) of
              None \<Rightarrow> None
            | Some (str, r) \<Rightarrow> Some (c # str, r)))"

definition parse_number :: "string \<Rightarrow> (json \<times> string) option" where
  "parse_number s =
     (let neg = (s \<noteq> [] \<and> hd s = CHR ''-'');
          body = (if neg then tl s else s);
          ds = takeWhile isdigit body;
          rest = dropWhile isdigit body
      in if ds = [] \<or> (length ds > 1 \<and> hd ds = CHR ''0'') then None
         else if rest \<noteq> [] \<and> hd rest \<in> {CHR ''.'', CHR ''e'', CHR ''E''} then None
         else (case py_int ds of
                 Inl e \<Rightarrow> None
               | Inr i \<Rightarrow> Some (JInt (if neg then - i else i), rest)))"

fun parse_value :: "'f list \<Rightarrow> string \<Rightarrow> (json \<times> string) option"
  and parse_items :: "'f list \<Rightarrow> string \<Rightarrow> json list \<Rightarrow> (json \<times> string) option"
  and parse_members :: "'f list \<Rightarrow> string \<Rightarrow> (string \<times> json) list \<Rightarrow> (json \<times> string) option"
where
  "parse_value [] s = None"
| "parse_value (f # n) s =
     (case skip_ws s of
        [] \<Rightarrow> None
      | c # r \<Rightarrow>
          if prefix ''null'' (c # r) then Some (JNull, drop 4 (c # r))
          else if prefix ''true'' (c # r) then Some (JBool True, drop 4 (c # r))
          else if prefix ''false'' (c # r) then Some (JBool False, drop 5 (c # r))
          else if c = CHR 0x22 then
            (case parse_string_body r of None \<Rightarrow> None | Some (str, r') \<Rightarrow> Some (JStr str, r'))
          else if c = CHR ''['' then
            (case skip_ws r of
               [] \<Rightarrow> None
             | d # r' \<Rightarrow> if d = CHR '']'' then Some (JArr [], r') else parse_items n r [])
          else if c = CHR ''{'' then
            (case skip_ws r of
               [] \<Rightarrow> None
             | d # r' \<Rightarrow> if d = CHR ''}'' then Some (JObj [], r') else parse_members n r [])
          else parse_number (c # r))"
| "parse_items [] s acc = None"
| "parse_items (f # n) s acc =
     (case parse_value n s of
        None \<Rightarrow> None
      | Some (v, r) \<Rightarrow>
          (case skip_ws r of
             [] \<Rightarrow> None
           | c # r' \<Rightarrow>
               if c = CHR '','' then parse_items n r' (acc @ [v])
               else if c = CHR '']'' then Some (JArr (acc @ [v]), r')
               else None))"
| "parse_members [] s acc = None"
| "parse_members (f # n) s acc =
     (case skip_ws s of
        [] \<Rightarrow> None
      | q # r0 \<Rightarrow>
          if q \<noteq> CHR 0x22 then None
          else (case parse_string_body r0 of
                  None \<Rightarrow> None
                | Some (k, r1) \<Rightarrow>
                    (case skip_ws r1 of
                       [] \<Rightarrow> None
                     | c # r2 \<Rightarrow>
                         if c \<noteq> CHR '':'' then None
                         else (case parse_value n r2 of
                                 None \<Rightarrow> None
                               | Some (v, r3) \<Rightarrow>
                                   (case skip_ws r3 of
                                      [] \<Rightarrow> None
                                    | d # r4 \<Rightarrow>
                                        if d = CHR '','' then parse_members n r4 (AList.update k v acc)
                                        else if d = CHR ''}'' then Some (JObj (AList.update k v acc), r4)
                                        else None)))))"

definition json_subset_loads :: "string \<Rightarrow> json option" where
  "json_subset_loads s =
     (case parse_value (s @ s @ ''ff'') s of
        None \<Rightarrow> None
      | Some (v, rest) \<Rightarrow> if skip_ws rest = [] then Some v else None)"

section \<open>The entry invariant and the worked example of the specification\<close>

text \<open>The two shapes of an entry the data model allows: a completed run has \<open>info.task\<close>
  and a non-empty \<open>traj\<close>, a crashed run has \<open>info.error\<close> and an empty \<open>traj\<close>.  An entry
  is well-formed when exactly one of the two holds.\<close>

definition has_task_and_traj :: "entry \<Rightarrow> bool" where
  "has_task_and_traj e =
     ((case info e of None \<Rightarrow> False | Some i \<Rightarrow> task i \<noteq> None)
      \<and> (case traj e of None \<Rightarrow> False | Some t \<Rightarrow> t \<noteq> []))"

definition has_error_and_no_traj :: "entry \<Rightarrow> bool" where
  "has_error_and_no_traj e =
     ((case info e of None \<Rightarrow> False | Some i \<Rightarrow> error i \<noteq> None)
      \<and> (case traj e of None \<Rightarrow> True | Some t \<Rightarrow> t = []))"

definition entry_invariant :: "entry \<Rightarrow> bool" where
  "entry_invariant e = (has_task_and_traj e \<noteq> has_error_and_no_traj e)"

text \<open>The three entries of the end-to-end example.  The example leaves the messages of
  entry 1 and the rest of entry 2 open; they are parameters here.  Entry 2 is a
  successful run, so its \<open>info\<close> holds a task and no error.\<close>

definition example_entry1 :: "message \<Rightarrow> message list \<Rightarrow> entry" where
  "example_entry1 m ms =
     \<lparr> task_id = Some 1, trial = None, reward = Some 0,
       info = Some \<lparr> task = Some (JObj [(''instruction'', JStr ''I''), (''actions'', JArr [])]),
                     error = None \<rparr>,
       traj = Some (m # ms) \<rparr>"

definition example_entry2 :: "int option \<Rightarrow> json \<Rightarrow> message list option \<Rightarrow> entry" where
  "example_entry2 tr tk t =
     \<lparr> task_id = Some 2, trial = tr, reward = Some 1,
       info = Some \<lparr> task = Some tk, error = None \<rparr>, traj = t \<rparr>"

definition example_entry3 :: entry where
  "example_entry3 =
     \<lparr> task_id = Some 3, trial = None, reward = None,
       info = Some \<lparr> task = None,
                     error = Some (''ContextWindowExceeded: your request has 9000 input tokens, ''
                                   @ ''maximum context length is 8192 tokens'') \<rparr>,
       traj = Some [] \<rparr>"

definition example_file ::
  "message \<Rightarrow> message list \<Rightarrow> int option \<Rightarrow> json \<Rightarrow> message list option \<Rightarrow> entry list" where
  "example_file m ms tr tk t = [example_entry1 m ms, example_entry2 tr tk t, example_entry3]"

text \<open>Concrete data for running the model: a user message, and an entry that has a task
  but an empty \<open>traj\<close>, which violates the invariant.\<close>

definition user_message :: "string \<Rightarrow> message" where
  "user_message txt = \<lparr> role = Some ''user'', content = Val txt, tool_calls = None \<rparr>"

definition task_without_traj :: entry where
  "task_without_traj =
     \<lparr> task_id = Some 4, trial = Some 0, reward = Some 0,
       info = Some \<lparr> task = Some (JObj [(''instruction'', JStr ''J'')]), error = None \<rparr>,
       traj = Some [] \<rparr>"




text \<open>A sampler to run the model with: the first \<open>k\<close> members of the population, whatever
  the seed.  It stands in for \<open>random.sample\<close> where a concrete run is evaluated.\<close>

definition first_k_sample :: "int \<Rightarrow> entry list \<Rightarrow> nat \<Rightarrow> entry list" where
  "first_k_sample sd xs k = take k xs"

section \<open>A concrete environment for running the model\<close>

text \<open>
  An external service that answers the calls of a run from a script and refuses every
  call after the last answer; a sampler whose choice depends on the seed; stand-ins
  for the printing functions; and entries that pass the failure filter.
\<close>

definition scripted_llm :: "(exn + string) list \<Rightarrow> nat \<Rightarrow> string \<Rightarrow> exn + string" where
  "scripted_llm answers n prompt =
     (if n < length answers then answers ! n
      else Inl (Exn ExternalError ''connection refused''))"

definition offset_sample :: "int \<Rightarrow> entry list \<Rightarrow> nat \<Rightarrow> entry list" where
  "offset_sample sd xs k =
     take k (drop (nat sd mod length xs) xs @ take (nat sd mod length xs) xs)"

definition run_env ::
  "(int \<Rightarrow> entry list \<Rightarrow> nat \<Rightarrow> entry list) \<Rightarrow> (exn + string) list \<Rightarrow> env" where
  "run_env rs answers =
     \<lparr> json_loads = json_subset_loads, json_dumps = (\<lambda>j. ''{}''), py_str = (\<lambda>j. ''?''),
       random_sample = rs, call_llm = scripted_llm answers, round1 = (\<lambda>x. x) \<rparr>"

definition some_task :: json where
  "some_task = JObj [(''instruction'', JStr ''I''), (''actions'', JArr [])]"

definition failure_entry :: "int \<Rightarrow> json \<Rightarrow> entry" where
  "failure_entry tid tk =
     \<lparr> task_id = Some tid, trial = Some 0, reward = Some 0,
       info = Some \<lparr> task = Some tk, error = None \<rparr>,
       traj = Some [user_message ''hi''] \<rparr>"

definition verdict_text :: "string \<Rightarrow> string" where
  "verdict_text cat = ''{'' @ quoted ''primary_category'' @ '': '' @ quoted cat @ ''}''"

definition three_answers :: "(exn + string) list" where
  "three_answers =
     [Inr (verdict_text ''wrong_tool''), Inr (verdict_text ''policy_violation''),
      Inr (verdict_text ''wrong_arguments'')]"




definition empty_world :: world where
  "empty_world = \<lparr> result_file = None, partial_file = None, events = [] \<rparr>"

text \<open>A file of three failures whose first entry has the empty dict as its task, which the
  run controller skips; and a file of three failures that are all classified.\<close>

definition skipped_first_file :: "entry list" where
  "skipped_first_file =
     [failure_entry 1 (JObj []), failure_entry 2 some_task, failure_entry 3 some_task]"

definition three_failures_file :: "entry list" where
  "three_failures_file =
     [failure_entry 1 some_task, failure_entry 2 some_task, failure_entry 3 some_task]"


text \<open>An error message whose token count has 4301 digits.\<close>

definition long_count_error :: string where
  "long_count_error =
     ''your request has '' @ replicate 4301 (CHR ''9'') @ '' input tokens''
       @ '': ContextWindowExceeded''"

text \<open>The result of an earlier, completed run.\<close>

definition stored_result :: run_result where
  "stored_result =
     \<lparr> res_config = ''14b_ReAct_airline'', res_file = ''react.json'', res_total_tasks = 3,
       res_total_failures_in_file = 3, res_unique_failures_sampled = 1,
       res_summary = [\<lparr> s_category = JStr ''wrong_tool'', s_count = 1, s_percentage = 100 \<rparr>],
       res_classifications =
         [\<lparr> cl_task_id = 1, cl_trial = 0, cl_instruction = JStr ''I'',
            cl_ground_truth_actions = JArr [], cl_agent_actions = [],
            cl_classification = JObj [(''primary_category'', JStr ''wrong_tool'')] \<rparr>] \<rparr>"

section \<open>Facts about the string and pattern primitives\<close>

lemma str_in_sublist: "str_in sub s = sublist sub s"
proof (induction s)
  case Nil
  then show ?case by auto
next
  case (Cons c cs)
  then show ?case by (simp add: sublist_Cons_right)
qed

lemma star_greedy_split:
  "r \<in> set (star_greedy k s) \<Longrightarrow> \<exists>p. s = p @ r \<and> list_all (in_class k) p"
proof (induction s)
  case Nil
  then show ?case by simp
next
  case (Cons c cs)
  show ?case
  proof (cases "r = c # cs")
    case True
    then show ?thesis by simp
  next
    case False
    with Cons.prems have "in_class k c" and "r \<in> set (star_greedy k cs)"
      by (auto split: if_splits)
    with Cons.IH obtain p where "cs = p @ r" "list_all (in_class k) p" by blast
    with \<open>in_class k c\<close> have "c # cs = (c # p) @ r \<and> list_all (in_class k) (c # p)" by simp
    then show ?thesis by blast
  qed
qed

lemma rmatch_Seq_mem:
  "(rest, g) \<in> set (rmatch (Seq r1 r2) s) \<longleftrightarrow>
   (\<exists>s1 g1 g2. (s1, g1) \<in> set (rmatch r1 s) \<and> (rest, g2) \<in> set (rmatch r2 s1) \<and>
      g = (case g2 of None \<Rightarrow> g1 | Some x \<Rightarrow> Some x))"
  by (auto split: option.splits) force+

lemma rmatch_Lit_mem:
  "(rest, g) \<in> set (rmatch (Lit l) s) \<longleftrightarrow> prefix l s \<and> rest = drop (length l) s \<and> g = None"
  by auto

lemma rmatch_Group_mem:
  "(rest, g) \<in> set (rmatch (Group r) s) \<longleftrightarrow>
   (\<exists>g'. (rest, g') \<in> set (rmatch r s) \<and> g = Some (take (length s - length rest) s))"
  by auto

lemma rmatch_Plus_mem:
  "(rest, g) \<in> set (rmatch (Plus k) s) \<longleftrightarrow>
   (\<exists>c cs. s = c # cs \<and> in_class k c \<and> rest \<in> set (star_greedy k cs) \<and> g = None)"
  by (cases s) auto

text \<open>A successful search found its match at some position of the text.\<close>

lemma re_search_SomeD:
  "re_search r s = Some (g0, g) \<Longrightarrow>
   \<exists>s' rest ms. suffix s' s \<and> rmatch r s' = (rest, g) # ms \<and> g0 = take (length s' - length rest) s'"
proof (induction s)
  case Nil
  then show ?case by (auto split: list.splits)
next
  case (Cons c cs)
  show ?case
  proof (cases "rmatch r (c # cs)")
    case Nil
    with Cons.prems have "re_search r cs = Some (g0, g)" by simp
    with Cons.IH obtain s' rest ms where *: "suffix s' cs" "rmatch r s' = (rest, g) # ms"
      "g0 = take (length s' - length rest) s'" by blast
    from *(1) have "suffix s' (c # cs)" by (simp add: suffix_Cons)
    with *(2,3) show ?thesis by blast
  next
    case (Cons m ms)
    obtain rest g' where m: "m = (rest, g')" by (cases m)
    with Cons Cons.prems have "g' = g" "g0 = take (length (c # cs) - length rest) (c # cs)"
      by simp_all
    with Cons m have "suffix (c # cs) (c # cs) \<and> rmatch r (c # cs) = (rest, g) # ms \<and>
       g0 = take (length (c # cs) - length rest) (c # cs)" by simp
    then show ?thesis by blast
  qed
qed

lemma star_greedy_mem:
  "r \<in> set (star_greedy k s) \<longleftrightarrow> (\<exists>p. s = p @ r \<and> list_all (in_class k) p)"
proof
  assume "r \<in> set (star_greedy k s)"
  then show "\<exists>p. s = p @ r \<and> list_all (in_class k) p" by (rule star_greedy_split)
next
  assume "\<exists>p. s = p @ r \<and> list_all (in_class k) p"
  then obtain p where "s = p @ r" "list_all (in_class k) p" by blast
  then show "r \<in> set (star_greedy k s)"
  proof (induction p arbitrary: s)
    case Nil
    then show ?case by (cases r) auto
  next
    case (Cons c p)
    then show ?case by auto
  qed
qed

lemma star_lazy_mem:
  "r \<in> set (star_lazy k s) \<longleftrightarrow> (\<exists>p. s = p @ r \<and> list_all (in_class k) p)"
proof
  assume "r \<in> set (star_lazy k s)"
  then show "\<exists>p. s = p @ r \<and> list_all (in_class k) p"
  proof (induction s)
    case Nil
    then show ?case by simp
  next
    case (Cons c cs)
    show ?case
    proof (cases "r = c # cs")
      case True
      then show ?thesis by simp
    next
      case False
      with Cons.prems have "in_class k c" and "r \<in> set (star_lazy k cs)"
        by (auto split: if_splits)
      with Cons.IH obtain p where "cs = p @ r" "list_all (in_class k) p" by blast
      with \<open>in_class k c\<close> have "c # cs = (c # p) @ r \<and> list_all (in_class k) (c # p)" by simp
      then show ?thesis by blast
    qed
  qed
next
  assume "\<exists>p. s = p @ r \<and> list_all (in_class k) p"
  then obtain p where "s = p @ r" "list_all (in_class k) p" by blast
  then show "r \<in> set (star_lazy k s)"
  proof (induction p arbitrary: s)
    case Nil
    then show ?case by (cases r) auto
  next
    case (Cons c p)
    then show ?case by auto
  qed
qed

lemma rmatch_Star_mem:
  "(rest, g) \<in> set (rmatch (Star k) s) \<longleftrightarrow>
   g = None \<and> (\<exists>p. s = p @ rest \<and> list_all (in_class k) p)"
  using star_greedy_mem [of rest k s] by auto

lemma rmatch_LazyStar_mem:
  "(rest, g) \<in> set (rmatch (LazyStar k) s) \<longleftrightarrow>
   g = None \<and> (\<exists>p. s = p @ rest \<and> list_all (in_class k) p)"
  using star_lazy_mem [of rest k s] by auto

lemma rmatch_Opt_mem:
  "(rest, g) \<in> set (rmatch (Opt r) s) \<longleftrightarrow>
   (rest, g) \<in> set (rmatch r s) \<or> (rest = s \<and> g = None)"
  by auto

lemma rmatch_suffix:
  "(rest, g) \<in> set (rmatch r s) \<Longrightarrow> suffix rest s"
proof (induction r arbitrary: s rest g)
  case (Lit l)
  then show ?case by (auto simp: suffix_drop split: if_splits)
next
  case (Star k)
  then show ?case unfolding rmatch_Star_mem by (auto simp: suffix_def)
next
  case (Plus k)
  then show ?case unfolding rmatch_Plus_mem star_greedy_mem
    by (auto simp: suffix_def)
next
  case (LazyStar k)
  then show ?case unfolding rmatch_LazyStar_mem by (auto simp: suffix_def)
next
  case (Opt r)
  then show ?case unfolding rmatch_Opt_mem by auto
next
  case (Seq r1 r2)
  from Seq.prems obtain s1 g1 g2 where "(s1, g1) \<in> set (rmatch r1 s)" "(rest, g2) \<in> set (rmatch r2 s1)"
    unfolding rmatch_Seq_mem by blast
  with Seq.IH show ?case by (meson suffix_order.trans)
next
  case (Group r)
  then show ?case unfolding rmatch_Group_mem by blast
qed


lemma re_search_here:
  "rmatch r s = (rest, g) # ms \<Longrightarrow> re_search r s = Some (take (length s - length rest) s, g)"
  by (cases s) (auto dest: rmatch_suffix [of rest g r "[]"] simp: suffix_def)


lemma takeWhile_run: "list_all P p \<Longrightarrow> \<not> P a \<Longrightarrow> takeWhile P (p @ a # x) = p"
  by (induction p) auto

lemma run_split_unique:
  assumes "p @ a # x = q @ b # y" "list_all P p" "list_all P q" "\<not> P a" "\<not> P b"
  shows "p = q \<and> a # x = b # y"
proof -
  have "takeWhile P (p @ a # x) = p" using assms(2,4) by (rule takeWhile_run)
  moreover have "takeWhile P (q @ b # y) = q" using assms(3,5) by (rule takeWhile_run)
  ultimately have "p = q" using assms(1) by simp
  with assms(1) show ?thesis by simp
qed

lemma rmatch_SeqI:
  "(s1, g1) \<in> set (rmatch r1 s) \<Longrightarrow> (rest, g2) \<in> set (rmatch r2 s1) \<Longrightarrow>
   (rest, case g2 of None \<Rightarrow> g1 | Some x \<Rightarrow> Some x) \<in> set (rmatch (Seq r1 r2) s)"
  unfolding rmatch_Seq_mem by blast

lemma rmatch_LitI: "(rest, None) \<in> set (rmatch (Lit l) (l @ rest))"
  unfolding rmatch_Lit_mem by simp



section \<open>Properties of the crash classifier\<close>

text \<open>Whatever a pattern of the form \<open>literal (\d+) literal\<close> matches, its group holds a
  non-empty run of digits.\<close>

lemma digits_group_captures:
  assumes "(rest, g) \<in> set (rmatch (Seq (Lit a) (Seq (Group (Plus Digit)) (Lit b))) s)"
  shows "\<exists>d. g = Some d \<and> d \<noteq> [] \<and> list_all isdigit d"
proof -
  from assms obtain s1 g1 g2 where
    o: "(rest, g2) \<in> set (rmatch (Seq (Group (Plus Digit)) (Lit b)) s1)"
       "g = (case g2 of None \<Rightarrow> g1 | Some x \<Rightarrow> Some x)"
    using rmatch_Seq_mem [of rest g "Lit a"] by blast
  from o(1) obtain s2 g3 g4 where
    i: "(s2, g3) \<in> set (rmatch (Group (Plus Digit)) s1)" "(rest, g4) \<in> set (rmatch (Lit b) s2)"
       "g2 = (case g4 of None \<Rightarrow> g3 | Some x \<Rightarrow> Some x)"
    using rmatch_Seq_mem [of rest g2 "Group (Plus Digit)"] by blast
  from i(2) have "g4 = None" using rmatch_Lit_mem by blast
  from i(1) obtain g5 where
    p: "(s2, g5) \<in> set (rmatch (Plus Digit) s1)" "g3 = Some (take (length s1 - length s2) s1)"
    using rmatch_Group_mem by blast
  from p(1) obtain c cs where s1: "s1 = c # cs" "in_class Digit c" "s2 \<in> set (star_greedy Digit cs)"
    using rmatch_Plus_mem by blast
  from s1(3) star_greedy_split obtain q where q: "cs = q @ s2" "list_all (in_class Digit) q"
    by blast
  from s1 q p(2) have "g3 = Some (c # q)" "list_all isdigit (c # q)"
    by (simp_all add: list_all_iff)
  with o(2) i(3) \<open>g4 = None\<close> have "g = Some (c # q)" by simp
  with \<open>list_all isdigit (c # q)\<close> show ?thesis by blast
qed

text \<open>What such a pattern matches, in general.\<close>

lemma digits_pattern_mem:
  "(rest, g) \<in> set (rmatch (Seq (Lit a) (Seq (Group (Plus Digit)) (Lit b))) s) \<longleftrightarrow>
   (\<exists>d. d \<noteq> [] \<and> list_all isdigit d \<and> s = a @ d @ b @ rest \<and> g = Some d)"
  (is "?L \<longleftrightarrow> ?R")
proof
  assume ?L
  then obtain s1 g1 g2 where
    l: "(s1, g1) \<in> set (rmatch (Lit a) s)"
    and o: "(rest, g2) \<in> set (rmatch (Seq (Group (Plus Digit)) (Lit b)) s1)"
       "g = (case g2 of None \<Rightarrow> g1 | Some x \<Rightarrow> Some x)"
    using rmatch_Seq_mem [of rest g "Lit a"] by blast
  from l have s: "s = a @ s1" unfolding rmatch_Lit_mem by (auto simp: prefix_def)
  from o(1) obtain s2 g3 g4 where
    i: "(s2, g3) \<in> set (rmatch (Group (Plus Digit)) s1)" "(rest, g4) \<in> set (rmatch (Lit b) s2)"
       "g2 = (case g4 of None \<Rightarrow> g3 | Some x \<Rightarrow> Some x)"
    using rmatch_Seq_mem [of rest g2 "Group (Plus Digit)"] by blast
  from i(2) have g4: "g4 = None" and s2: "s2 = b @ rest"
    unfolding rmatch_Lit_mem by (auto simp: prefix_def)
  from i(1) obtain g5 where
    p: "(s2, g5) \<in> set (rmatch (Plus Digit) s1)" "g3 = Some (take (length s1 - length s2) s1)"
    using rmatch_Group_mem by blast
  from p(1) obtain c cs where s1: "s1 = c # cs" "in_class Digit c" "s2 \<in> set (star_greedy Digit cs)"
    using rmatch_Plus_mem by blast
  from s1(3) star_greedy_split obtain q where q: "cs = q @ s2" "list_all (in_class Digit) q"
    by blast
  from s1 q p(2) have "g3 = Some (c # q)" "list_all isdigit (c # q)"
    by (simp_all add: list_all_iff)
  with o(2) i(3) g4 have "g = Some (c # q)" by simp
  moreover from s s1 q s2 have "s = a @ (c # q) @ b @ rest" by simp
  ultimately show ?R using \<open>list_all isdigit (c # q)\<close> by blast
next
  assume ?R
  then obtain d where d: "d \<noteq> []" "list_all isdigit d" and s: "s = a @ d @ b @ rest"
    and g: "g = Some d" by blast
  from d(1) obtain c q where cq: "d = c # q" by (cases d) auto
  with d(2) have c: "in_class Digit c" and q: "list_all (in_class Digit) q"
    by (simp_all add: list_all_iff)
  from q have "b @ rest \<in> set (star_greedy Digit (q @ b @ rest))"
    unfolding star_greedy_mem by blast
  with c have 0: "(b @ rest, None) \<in> set (rmatch (Plus Digit) (d @ b @ rest))"
    by (simp add: cq)
  have 1: "(b @ rest, Some d) \<in> set (rmatch (Group (Plus Digit)) (d @ b @ rest))"
    unfolding rmatch_Group_mem using 0 by (intro exI [of _ None]) simp
  have 2: "(rest, None) \<in> set (rmatch (Lit b) (b @ rest))" by (rule rmatch_LitI)
  have 3: "(rest, Some d) \<in> set (rmatch (Seq (Group (Plus Digit)) (Lit b)) (d @ b @ rest))"
    using rmatch_SeqI [OF 1 2] by (simp del: rmatch.simps)
  have 4: "(d @ b @ rest, None) \<in> set (rmatch (Lit a) (a @ d @ b @ rest))"
    by (rule rmatch_LitI)
  have "(rest, Some d) \<in> set (rmatch (Seq (Lit a) (Seq (Group (Plus Digit)) (Lit b))) (a @ d @ b @ rest))"
    using rmatch_SeqI [OF 4 3] by (simp del: rmatch.simps)
  with s g show ?L by (simp del: rmatch.simps)
qed

text \<open>The conversion of the captured count raises exactly when the count has more than
  4300 digits, and then with a \<open>ValueError\<close>.\<close>

lemma group1_int_digits:
  fixes a b :: string
  defines "p \<equiv> Seq (Lit a) (Seq (Group (Plus Digit)) (Lit b))"
  shows "(if 4300 < captured_digits p s
          then \<exists>m. group1_int (re_search p s) = Inl (Exn ValueError m)
          else \<exists>v. group1_int (re_search p s) = Inr v)"
proof (cases "re_search p s")
  case None
  then show ?thesis by (simp add: group1_int_def captured_digits_def)
next
  case (Some x)
  obtain g0 g where x: "x = (g0, g)" by (cases x)
  with Some obtain s' rest ms where "rmatch p s' = (rest, g) # ms"
    using re_search_SomeD by blast
  then have "(rest, g) \<in> set (rmatch p s')" by simp
  then obtain d where "g = Some d" "d \<noteq> []" "list_all isdigit d"
    unfolding p_def using digits_group_captures by blast
  with Some x show ?thesis
    by (simp add: group1_int_def py_int_def captured_digits_def max_str_digits_def)
qed

text \<open>A count at the front of the text is the one the search finds.\<close>

lemma digits_search_front:
  assumes "d \<noteq> []" "list_all isdigit d" "b \<noteq> []" "\<not> isdigit (hd b)"
  shows "re_search (Seq (Lit a) (Seq (Group (Plus Digit)) (Lit b))) (a @ d @ b @ rest)
         = Some (a @ d @ b, Some d)"
proof -
  let ?p = "Seq (Lit a) (Seq (Group (Plus Digit)) (Lit b))"
  let ?s = "a @ d @ b @ rest"
  from assms(3) obtain x b' where b: "b = x # b'" by (cases b) auto
  with assms(4) have x: "\<not> isdigit x" by simp
  have ex: "(rest, Some d) \<in> set (rmatch ?p ?s)"
    unfolding digits_pattern_mem using assms(1,2) by blast
  have all: "r = rest \<and> g = Some d" if "(r, g) \<in> set (rmatch ?p ?s)" for r g
  proof -
    from that obtain d' where d': "list_all isdigit d'" "?s = a @ d' @ b @ r" "g = Some d'"
      unfolding digits_pattern_mem by blast
    from d'(2) b have "d @ x # (b' @ rest) = d' @ x # (b' @ r)" by simp
    from run_split_unique [OF this assms(2) d'(1) x x] d'(3) show ?thesis by simp
  qed
  from ex obtain m ms where ne: "rmatch ?p ?s = m # ms"
    using list.set_cases by metis
  obtain r g where m: "m = (r, g)" by (cases m)
  from ne m have "(r, g) \<in> set (rmatch ?p ?s)" by (simp del: rmatch.simps)
  with all have "r = rest \<and> g = Some d" by blast
  with ne m have "rmatch ?p ?s = (rest, Some d) # ms" by (simp del: rmatch.simps)
  from re_search_here [OF this] show ?thesis by simp
qed

text \<open>
  Claim C10, as the code has it.  \<open>classify_crash\<close> returns a record on every error
  string but those that hold \<open>ContextWindowExceeded\<close> and a token count of more than 4300
  digits after \<open>your request has\<close> or \<open>maximum context length is\<close>; on those the
  conversion of the count raises \<open>ValueError\<close>, which \<open>classify_crash\<close> does not catch.
  Wherever it returns, the record's \<open>crash_type\<close> is one of \<open>context_window\<close>,
  \<open>api_timeout\<close> and \<open>other\<close>; \<open>tokens_used\<close> and \<open>token_limit\<close> are \<open>None\<close> unless the
  type is \<open>context_window\<close>; and a message that contains both \<open>ContextWindowExceeded\<close>
  and \<open>Timeout\<close> is classified \<open>context_window\<close>.
\<close>

theorem classify_crash_returns:
  "((\<exists>ci. classify_crash s = Inr ci) \<longleftrightarrow>
      \<not> (str_in ''ContextWindowExceeded'' s
         \<and> (4300 < captured_digits tokens_pattern s \<or> 4300 < captured_digits limit_pattern s)))
   \<and> (\<forall>e. classify_crash s = Inl e \<longrightarrow> (\<exists>m. e = Exn ValueError m))
   \<and> (\<forall>ci. classify_crash s = Inr ci \<longrightarrow>
        (crash_type ci = ''context_window'' \<or> crash_type ci = ''api_timeout''
          \<or> crash_type ci = ''other'')
        \<and> (crash_type ci \<noteq> ''context_window'' \<longrightarrow> tokens_used ci = None \<and> token_limit ci = None)
        \<and> (str_in ''ContextWindowExceeded'' s \<and> str_in ''Timeout'' s
             \<longrightarrow> crash_type ci = ''context_window''))"
proof (cases "str_in ''ContextWindowExceeded'' s")
  case True
  note u = group1_int_digits [of "''your request has ''" "'' input tokens''" s,
      folded tokens_pattern_def]
  note l = group1_int_digits [of "''maximum context length is ''" "'' tokens''" s,
      folded limit_pattern_def]
  show ?thesis
  proof (cases "4300 < captured_digits tokens_pattern s")
    case True
    with u \<open>str_in ''ContextWindowExceeded'' s\<close> show ?thesis
      by (auto simp: classify_crash_def)
  next
    case False
    with u obtain used where used: "group1_int (re_search tokens_pattern s) = Inr used" by auto
    show ?thesis
    proof (cases "4300 < captured_digits limit_pattern s")
      case True
      with l used \<open>str_in ''ContextWindowExceeded'' s\<close> show ?thesis
        by (auto simp: classify_crash_def)
    next
      case False
      with l obtain limit where "group1_int (re_search limit_pattern s) = Inr limit" by auto
      with used False \<open>\<not> 4300 < captured_digits tokens_pattern s\<close>
        \<open>str_in ''ContextWindowExceeded'' s\<close>
      show ?thesis by (simp add: classify_crash_def)
    qed
  qed
next
  case False
  then show ?thesis by (simp add: classify_crash_def)
qed

lemmas crash_eval =
  classify_crash_def tokens_pattern_def limit_pattern_def group1_int_def py_int_def isdigit_def
  digit_val_def truthy_opt_int_def fmt_opt_int_def str_of_int_def digit_char_def
  max_str_digits_def captured_digits_def

theorem classify_crash_returns_witness:
  "str_in ''ContextWindowExceeded'' ''Timeout, then ContextWindowExceeded''
   \<and> str_in ''Timeout'' ''Timeout, then ContextWindowExceeded''
   \<and> captured_digits tokens_pattern ''Timeout, then ContextWindowExceeded'' = 0
   \<and> captured_digits limit_pattern ''Timeout, then ContextWindowExceeded'' = 0
   \<and> (\<exists>ci. classify_crash ''Timeout, then ContextWindowExceeded'' = Inr ci
         \<and> crash_type ci = ''context_window'')
   \<and> \<not> str_in ''ContextWindowExceeded'' ''KeyError: 7''
   \<and> (\<exists>ci. classify_crash ''KeyError: 7'' = Inr ci
         \<and> crash_type ci \<noteq> ''context_window''
         \<and> tokens_used ci = None \<and> token_limit ci = None)"
proof -
  have a: "str_in ''ContextWindowExceeded'' ''Timeout, then ContextWindowExceeded''"
    by simp
  have b: "str_in ''Timeout'' ''Timeout, then ContextWindowExceeded''"
    by simp
  have n: "captured_digits tokens_pattern ''Timeout, then ContextWindowExceeded'' = 0"
    "captured_digits limit_pattern ''Timeout, then ContextWindowExceeded'' = 0"
    by (simp_all add: crash_eval)
  have k: "\<not> str_in ''ContextWindowExceeded'' ''KeyError: 7''" by simp
  have c: "\<forall>ci. classify_crash ''KeyError: 7'' = Inr ci \<longrightarrow> crash_type ci \<noteq> ''context_window''"
    by (simp add: classify_crash_def)
  from a b n classify_crash_returns [of "''Timeout, then ContextWindowExceeded''"]
  have d: "\<exists>ci. classify_crash ''Timeout, then ContextWindowExceeded'' = Inr ci
         \<and> crash_type ci = ''context_window''" by force
  from k c classify_crash_returns [of "''KeyError: 7''"]
  have e: "\<exists>ci. classify_crash ''KeyError: 7'' = Inr ci
         \<and> crash_type ci \<noteq> ''context_window''
         \<and> tokens_used ci = None \<and> token_limit ci = None" by force
  from a b n d k e show ?thesis by blast
qed

text \<open>The claim as stated fails: \<open>classify_crash\<close> is not total.  On an error message
  whose token count has 4301 digits the conversion \<open>int(tokens_match.group(1))\<close> raises
  \<open>ValueError\<close>, and the exception leaves \<open>classify_crash\<close>.\<close>

theorem classify_crash_long_count_counterexample:
  "classify_crash long_count_error
   = Inl (Exn ValueError
       (''Exceeds the limit (4300 digits) for integer string conversion: value has 4301''
        @ '' digits; use sys.set_int_max_str_digits() to increase the limit''))"
proof -
  define d where "d = replicate 4301 (CHR ''9'')"
  have d: "d \<noteq> []" "list_all isdigit d" "length d = 4301"
    by (simp_all add: d_def isdigit_def list_all_iff)
  have e: "long_count_error
      = ''your request has '' @ d @ '' input tokens'' @ '': ContextWindowExceeded''"
    by (simp add: long_count_error_def d_def)
  have "re_search tokens_pattern long_count_error
        = Some (''your request has '' @ d @ '' input tokens'', Some d)"
    unfolding tokens_pattern_def e
    by (rule digits_search_front [OF d(1,2)]) (simp_all add: isdigit_def)
  moreover have "str_in ''ContextWindowExceeded'' long_count_error"
    unfolding str_in_sublist e sublist_def
    by (intro exI [of _ "''your request has '' @ d @ '' input tokens: ''"] exI [of _ "[]"]) simp
  moreover have "str_of_nat 4301 = ''4301''" by (simp add: digit_char_def)
  with d have "py_int d
      = Inl (Exn ValueError
       (''Exceeds the limit (4300 digits) for integer string conversion: value has 4301''
        @ '' digits; use sys.set_int_max_str_digits() to increase the limit''))"
    by (simp add: py_int_def max_str_digits_def del: str_of_nat.simps)
  ultimately show ?thesis by (simp add: classify_crash_def group1_int_def)
qed

section \<open>Properties of the failure sampler\<close>

lemma update_values: "snd ` set (AList.update k v al) \<subseteq> insert v (snd ` set al)"
  by (induction al) auto

lemma dedupe_values:
  "dedupe seen es = Inr seen' \<Longrightarrow> snd ` set seen' \<subseteq> snd ` set seen \<union> set es"
proof (induction es arbitrary: seen)
  case Nil
  then show ?case by simp
next
  case (Cons e es)
  from Cons.prems obtain tid where tid: "task_id e = Some tid"
    by (cases "task_id e") auto
  have upd: "snd ` set (AList.update tid e seen) \<subseteq> insert e (snd ` set seen)"
    by (rule update_values)
  show ?case
  proof (cases "dedupe seen (e # es) = dedupe seen es")
    case True
    with Cons.prems Cons.IH [of seen] show ?thesis by auto
  next
    case False
    with tid have "dedupe seen (e # es) = dedupe (AList.update tid e seen) es"
      by (auto split: option.splits if_splits)
    with Cons.prems Cons.IH [of "AList.update tid e seen"] upd show ?thesis by auto
  qed
qed

text \<open>Every sampled entry is an entry of the file that passed the failure filter, as
  long as the library's sampler returns members of its population.\<close>

lemma failures_selected:
  assumes "load_and_sample rs data n seed = Inr (sample, count)"
    and "\<forall>sd xs k. set (rs sd xs k) \<subseteq> set xs"
  shows "set sample \<subseteq> {e \<in> set data. is_failure e}"
proof -
  from assms(1) obtain seen where seen: "dedupe [] (filter is_failure data) = Inr seen"
    and sample: "sample = map snd (sort_key fst seen) \<or>
                 sample = rs seed (map snd (sort_key fst seen)) (nat n)"
    by (auto simp: load_and_sample_def Let_def split: sum.splits if_splits)
  have "set (map snd (sort_key fst seen)) = snd ` set seen" by simp
  with sample assms(2) have "set sample \<subseteq> snd ` set seen" by blast
  with dedupe_values [OF seen] show ?thesis by auto
qed

text \<open>
  Claim C4.  No entry that \<open>load_and_sample\<close> selects as a failure case violates the
  exactly-one invariant: every selected entry is an entry of the file that has
  \<open>info.task\<close> and a non-empty \<open>traj\<close>, and so is not of the crashed shape.  The
  hypothesis on \<open>rs\<close> is the contract of \<open>random.sample\<close>: it returns members of the
  population.
\<close>

theorem sampler_rejects_violations:
  assumes "\<forall>sd xs k. set (rs sd xs k) \<subseteq> set xs"
    and "load_and_sample rs data n seed = Inr (sample, count)"
  shows "\<forall>e \<in> set sample. e \<in> set data \<and> entry_invariant e"
proof
  fix e assume "e \<in> set sample"
  with failures_selected [OF assms(2) assms(1)] have "e \<in> set data" "is_failure e" by auto
  then show "e \<in> set data \<and> entry_invariant e"
    by (auto simp: is_failure_def entry_invariant_def has_task_and_traj_def
        has_error_and_no_traj_def split: option.splits)
qed

theorem sampler_rejects_violations_witness:
  "(\<forall>sd xs k. set (first_k_sample sd xs k) \<subseteq> set xs)
   \<and> load_and_sample first_k_sample
         [task_without_traj, example_entry1 (user_message ''hi'') [], example_entry3] 50 42
       = Inr ([example_entry1 (user_message ''hi'') []], 3)
   \<and> \<not> entry_invariant task_without_traj
   \<and> entry_invariant (example_entry1 (user_message ''hi'') [])"
proof -
  have a: "\<forall>sd xs k. set (first_k_sample sd xs k) \<subseteq> set xs"
    by (auto simp: first_k_sample_def dest: in_set_takeD)
  have b: "load_and_sample first_k_sample
         [task_without_traj, example_entry1 (user_message ''hi'') [], example_entry3] 50 42
       = Inr ([example_entry1 (user_message ''hi'') []], 3)"
    by (simp add: load_and_sample_def is_failure_def task_without_traj_def example_entry1_def
        example_entry3_def)
  have c: "\<not> entry_invariant task_without_traj"
    by (simp add: entry_invariant_def has_task_and_traj_def has_error_and_no_traj_def
        task_without_traj_def)
  from sampler_rejects_violations [OF a b]
  have "entry_invariant (example_entry1 (user_message ''hi'') [])" by simp
  with a b c show ?thesis by blast
qed

section \<open>The end-to-end example\<close>

lemma classify_crash_example:
  "classify_crash (''ContextWindowExceeded: your request has 9000 input tokens, ''
                   @ ''maximum context length is 8192 tokens'')
   = Inr \<lparr> crash_type = ''context_window'', tokens_used = Some 9000, token_limit = Some 8192,
           error_short = ''Context window exceeded (9000/8192 tokens)'' \<rparr>"
  by (simp add: crash_eval)

text \<open>
  Claim C8.  On the three-entry file of the specification, with any sample size of at
  least one, the sampler returns entry 1 alone (entry 3 does not pass the failure
  filter); the crash scan records one crash, for task 3, of type \<open>context_window\<close> with
  \<open>tokens_used = 9000\<close> and \<open>token_limit = 8192\<close>; and the JSON report gives it
  \<open>over_by = 808\<close>.
\<close>

theorem end_to_end_example:
  assumes "0 < n"
  shows "load_and_sample rs (example_file m ms tr tk t) n seed = Inr ([example_entry1 m ms], 3)
    \<and> \<not> is_failure example_entry3
    \<and> (\<exists>sr. scan_file label (example_file m ms tr tk t) = Inr sr
          \<and> crashes sr =
              [\<lparr> crash_type = ''context_window'', tokens_used = Some 9000,
                 token_limit = Some 8192,
                 error_short = ''Context window exceeded (9000/8192 tokens)'',
                 c_task_id = Some 3, c_trial = None, c_config_label = label \<rparr>]
          \<and> save_json_crashes (crashes sr) =
              Inr [\<lparr> r_config = label, r_task_id = Some 3, r_trial = None,
                     r_crash_type = ''context_window'',
                     r_error_short = ''Context window exceeded (9000/8192 tokens)'',
                     r_tokens_used = Some 9000, r_token_limit = Some 8192,
                     r_over_by = Some 808 \<rparr>])"
proof -
  from assms
  have a: "load_and_sample rs (example_file m ms tr tk t) n seed = Inr ([example_entry1 m ms], 3)"
    by (simp add: load_and_sample_def is_failure_def example_file_def example_entry1_def
        example_entry2_def example_entry3_def)
  have b: "\<not> is_failure example_entry3"
    by (simp add: is_failure_def example_entry3_def)
  have c: "scan_entries label (example_file m ms tr tk t) =
     Inr ([\<lparr> crash_type = ''context_window'', tokens_used = Some 9000, token_limit = Some 8192,
             error_short = ''Context window exceeded (9000/8192 tokens)'',
             c_task_id = Some 3, c_trial = None, c_config_label = label \<rparr>],
          [\<lparr> t_task_id = Some 1, t_trial = None, t_turns = Suc (length ms), t_reward = 0 \<rparr>,
           \<lparr> t_task_id = Some 2, t_trial = tr,
             t_turns = (case t of None \<Rightarrow> 0 | Some x \<Rightarrow> length x), t_reward = 1 \<rparr>])"
    using classify_crash_example
    by (simp add: example_file_def example_entry1_def example_entry2_def example_entry3_def
        crash_info.extend_def)
  show ?thesis using a b c
    by (simp add: scan_file_def crash_row_of_def)
qed

theorem end_to_end_example_witness:
  "(0::int) < 50
   \<and> load_and_sample first_k_sample
        (example_file (user_message ''hi'') [] (Some 0) (JObj []) None) 50 42
      = Inr ([example_entry1 (user_message ''hi'') []], 3)
   \<and> (\<exists>sr. scan_file ''14B_ACT_airline''
              (example_file (user_message ''hi'') [] (Some 0) (JObj []) None) = Inr sr
          \<and> map tokens_used (crashes sr) = [Some 9000]
          \<and> map token_limit (crashes sr) = [Some 8192])"
proof -
  have h: "(0::int) < 50" by simp
  from end_to_end_example [OF h, of first_k_sample "user_message ''hi''" "[]" "Some 0" "JObj []"
      None 42 "''14B_ACT_airline''"]
  show ?thesis by auto
qed

section \<open>Policy extraction\<close>

lemma split_first_decomp:
  "str_in m s \<Longrightarrow> \<exists>post. s = split_first m s @ m @ post"
proof (induction s)
  case Nil
  then show ?case by simp
next
  case (Cons c cs)
  show ?case
  proof (cases "prefix m (c # cs)")
    case True
    then show ?thesis by (auto simp: prefix_def)
  next
    case False
    with Cons show ?thesis by auto
  qed
qed

lemma split_first_first:
  "i < length (split_first m s) \<Longrightarrow> \<not> prefix m (drop i s)"
proof (induction s arbitrary: i)
  case Nil
  then show ?case by simp
next
  case (Cons c cs)
  then show ?case by (cases i) (auto split: if_splits)
qed

lemma cut_before_split_first:
  "str_in m s \<Longrightarrow> cut_before m s (strip (split_first m s))"
  unfolding cut_before_def
  using split_first_decomp [of m s] split_first_first [of _ m s] by blast

text \<open>
  Claim C7, as the code has it.  The markers are the three literal strings
  \<open>#Available tools\<close>, \<open># Available tools\<close> and \<open>#Available Tools\<close>, matched with their
  case and their hash.  For the first of them, in this order, that occurs in the text,
  \<open>extract_policy\<close> returns the text in front of that marker's first occurrence, stripped
  of surrounding blanks.  When none occurs it returns the first 3000 characters.
\<close>

theorem extract_policy_markers:
  "(str_in ''#Available tools'' s \<longrightarrow> cut_before ''#Available tools'' s (extract_policy s))
   \<and> (\<not> str_in ''#Available tools'' s \<and> str_in ''# Available tools'' s
        \<longrightarrow> cut_before ''# Available tools'' s (extract_policy s))
   \<and> (\<not> str_in ''#Available tools'' s \<and> \<not> str_in ''# Available tools'' s
        \<and> str_in ''#Available Tools'' s
        \<longrightarrow> cut_before ''#Available Tools'' s (extract_policy s))
   \<and> (\<not> str_in ''#Available tools'' s \<and> \<not> str_in ''# Available tools'' s
        \<and> \<not> str_in ''#Available Tools'' s
        \<longrightarrow> extract_policy s = take 3000 s)"
  by (simp add: extract_policy_def policy_markers_def cut_before_split_first)

lemmas policy_eval =
  extract_policy_def policy_markers_def strip_def lstrip_def rstrip_def isspace_def

theorem extract_policy_markers_witness:
  "\<not> str_in ''#Available tools'' ''Be polite.   # Available tools: cancel''
   \<and> str_in ''# Available tools'' ''Be polite.   # Available tools: cancel''
   \<and> cut_before ''# Available tools'' ''Be polite.   # Available tools: cancel'' ''Be polite.''
   \<and> \<not> str_in ''#Available tools'' ''Be polite.''
   \<and> \<not> str_in ''# Available tools'' ''Be polite.''
   \<and> \<not> str_in ''#Available Tools'' ''Be polite.''
   \<and> extract_policy ''Be polite.'' = ''Be polite.''"
proof -
  have a: "\<not> str_in ''#Available tools'' ''Be polite.   # Available tools: cancel''"
    by simp
  have b: "str_in ''# Available tools'' ''Be polite.   # Available tools: cancel''"
    by simp
  have c: "extract_policy ''Be polite.   # Available tools: cancel'' = ''Be polite.''"
    by (simp add: policy_eval)
  have d: "\<not> str_in ''#Available tools'' ''Be polite.''
     \<and> \<not> str_in ''# Available tools'' ''Be polite.''
     \<and> \<not> str_in ''#Available Tools'' ''Be polite.''"
    by simp
  from a b c extract_policy_markers [of "''Be polite.   # Available tools: cancel''"]
  have e: "cut_before ''# Available tools'' ''Be polite.   # Available tools: cancel''
     ''Be polite.''" by simp
  from d extract_policy_markers [of "''Be polite.''"]
  have f: "extract_policy ''Be polite.'' = ''Be polite.''" by simp
  from a b d e f show ?thesis by blast
qed

text \<open>The claim as stated fails: a marker in another case, or without its hash, does not
  cut the text.\<close>

theorem extract_policy_case_counterexample:
  "extract_policy ''Refund rules. #AVAILABLE TOOLS: cancel''
     = ''Refund rules. #AVAILABLE TOOLS: cancel''
   \<and> extract_policy ''Refund rules. Available tools: cancel''
     = ''Refund rules. Available tools: cancel''"
  by (simp add: policy_eval)

section \<open>Properties of the extracted actions\<close>





lemmas json_eval =
  json_subset_loads_def skip_ws_def json_ws_def parse_number_def py_int_def isdigit_def
  digit_val_def quoted_def max_str_digits_def



section \<open>Properties of the run controller\<close>

lemmas run_eval =
  process_file_def main_process_file_def load_and_sample_def is_failure_def
  skipped_first_file_def three_failures_file_def failure_entry_def some_task_def run_env_def
  first_k_sample_def offset_sample_def empty_world_def trial_or_0_def classify_one_def
  build_prompt_def traj_or_empty_def task_or_empty_def prompt_policy_def user_message_def
  format_ground_truth_def attempt_def scripted_llm_def three_answers_def n_calls_def
  parse_response_def verdict_text_def json_eval strip_def lstrip_def rstrip_def isspace_def
  validate_def valid_categories_def ERROR_TAXONOMY_def sleep_def message_actions_def
  content_action_def content_or_empty_def action_pattern_def compute_summary_def
  category_of_def Let_def

text \<open>
  Claim C3.  When the final result of a file exists and the run is not forced,
  \<open>process_file\<close> returns the stored result and leaves the world as it was: no file is
  written and the trace of external calls does not grow.
\<close>

theorem completed_run_idempotent:
  assumes "result_file w = Some stored" and "\<not> force"
  shows "process_file ev data config_name filepath sample_size delay force dry_run kill w
           = (Returned (Some stored), w)"
  using assms by (simp add: process_file_def)

theorem completed_run_idempotent_witness:
  "result_file (empty_world \<lparr> result_file := Some stored_result \<rparr>) = Some stored_result
   \<and> \<not> False
   \<and> process_file (run_env first_k_sample three_answers) three_failures_file
         ''14b_ReAct_airline'' ''react.json'' 50 (1/2) False False None
         (empty_world \<lparr> result_file := Some stored_result \<rparr>)
       = (Returned (Some stored_result), empty_world \<lparr> result_file := Some stored_result \<rparr>)
   \<and> n_calls (events (empty_world \<lparr> result_file := Some stored_result \<rparr>)) = 0"
proof -
  have a: "result_file (empty_world \<lparr> result_file := Some stored_result \<rparr>) = Some stored_result"
    by simp
  have b: "\<not> False" by simp
  have c: "n_calls (events (empty_world \<lparr> result_file := Some stored_result \<rparr>)) = 0"
    by (simp add: empty_world_def n_calls_def)
  from completed_run_idempotent [OF a b] a c show ?thesis by simp
qed

text \<open>The seed option of a run never reaches the sampler: \<open>main\<close> does not pass it to
  \<open>process_file\<close>, which samples with the default seed 42.\<close>

lemma seed_option_never_read:
  "main_process_file ev (a \<lparr> a_seed := s \<rparr>) data config_name filepath kill w
     = main_process_file ev a data config_name filepath kill w"
  by (simp add: main_process_file_def)

text \<open>
  Claim C2 at a failing input.  With a sampler whose choice depends on the seed, a file
  of three failures and a sample size of 1, seed 7 selects task 2 and seed 42 selects
  task 1.  A run with the seed option 7 classifies task 1: the sample is the one of
  seed 42, not the one of the caller's seed.
\<close>

theorem seed_option_ignored:
  "load_and_sample offset_sample three_failures_file 1 7
     = Inr ([failure_entry 2 some_task], 3)
   \<and> load_and_sample offset_sample three_failures_file 1 42
     = Inr ([failure_entry 1 some_task], 3)
   \<and> (\<exists>r w. main_process_file (run_env offset_sample three_answers)
               \<lparr> a_sample_size = 1, a_delay = 0, a_force = False, a_dry_run = False, a_seed = 7 \<rparr>
               three_failures_file ''cfg'' ''file.json'' None empty_world
             = (Returned (Some r), w)
          \<and> map cl_task_id (res_classifications r) = [1])"
  by (simp add: run_eval)

text \<open>What a run that returns adds to the classifications it started with: one entry for
  each case of its list that is not skipped, in order.\<close>

lemma classify_loop_extends:
  "classify_loop ev delay kill fs cls w = (Returned cls', w') \<Longrightarrow>
   \<exists>new. cls' = cls @ new
     \<and> map (Some \<circ> cl_task_id) new = map task_id (filter classifiable fs)"
proof (induction fs arbitrary: cls w kill)
  case Nil
  then show ?case by (simp split: if_splits)
next
  case (Cons f fs)
  from Cons.prems obtain tid where tid: "task_id f = Some tid"
    by (cases "task_id f") (auto split: if_splits)
  show ?case
  proof (cases "classifiable f")
    case False
    with Cons.prems tid have "classify_loop ev delay kill fs cls w = (Returned cls', w')"
      by (auto simp: classifiable_def split: if_splits option.splits)
    from Cons.IH [OF this] False show ?thesis by simp
  next
    case True
    then obtain i tk where i: "info f = Some i" "task i = Some tk" "truthy tk"
      by (auto simp: classifiable_def split: option.splits)
    with Cons.prems tid obtain c w1 where
      step: "classify_loop ev delay (map_option (\<lambda>k. k - 1) kill) fs (cls @ [c]) w1 = (Returned cls', w')"
      and c: "cl_task_id c = tid"
      by (auto simp: Let_def split: if_splits sum.splits prod.splits)
    from Cons.IH [OF step] obtain new where "cls' = (cls @ [c]) @ new"
      "map (Some \<circ> cl_task_id) new = map task_id (filter classifiable fs)" by blast
    with True tid c have "cls' = cls @ (c # new)
       \<and> map (Some \<circ> cl_task_id) (c # new) = map task_id (filter classifiable (f # fs))"
      by simp
    then show ?thesis by blast
  qed
qed

text \<open>A resumed run keeps the checkpoint as the front of its result and goes on at the
  index of the sample that equals the length of the checkpoint.\<close>

lemma resume_continues_at_checkpoint_length:
  assumes run: "process_file ev data config_name filepath sample_size delay False dry_run None w
                  = (Returned (Some r), w')"
    and fresh: "result_file w = None"
    and partial: "partial_file w = Some checkpoint"
    and sample: "load_and_sample (random_sample ev) data sample_size 42 = Inr (failures, n)"
  shows "\<exists>new. res_classifications r = checkpoint @ new
     \<and> map (Some \<circ> cl_task_id) new
         = map task_id (filter classifiable (drop (length checkpoint) failures))"
proof -
  from run fresh partial sample obtain cls' w1 where
    loop: "classify_loop ev delay None (drop (length checkpoint) failures) checkpoint w
            = (Returned cls', w1)"
    and r: "res_classifications r = cls'"
    by (auto simp: process_file_def Let_def split: sum.splits list.splits if_splits prod.splits
        outcome.splits)
  from classify_loop_extends [OF loop] r show ?thesis by simp
qed

text \<open>
  Claim C1 at a failing input.  The sample has three cases; the first has an empty task
  and is skipped.  The first run is killed after one checkpoint, which holds the
  classification of task 2.  The resumed run starts at index 1 of the sample, the
  length of the checkpoint, and classifies task 2 again: the final list has three
  entries, for tasks 2, 2 and 3, where the sample size minus the skipped case is two.
\<close>

theorem resume_repeats_classified_case:
  "\<exists>w1. process_file (run_env first_k_sample three_answers) skipped_first_file
            ''cfg'' ''file.json'' 50 0 False False (Some 1) empty_world = (Killed, w1)
     \<and> result_file w1 = None
     \<and> map_option (map cl_task_id) (partial_file w1) = Some [2]
     \<and> (\<exists>r w2. process_file (run_env first_k_sample three_answers) skipped_first_file
                   ''cfg'' ''file.json'' 50 0 False False None w1 = (Returned (Some r), w2)
            \<and> res_unique_failures_sampled r = 3
            \<and> partial_file w1 = Some (take 1 (res_classifications r))
            \<and> map cl_task_id (res_classifications r) = [2, 2, 3])"
  by (simp add: run_eval)

section \<open>Properties of the classifier client\<close>






section \<open>Properties of the pattern matcher\<close>

lemma brace_free_append [simp]: "brace_free (a @ b) = (brace_free a \<and> brace_free b)"
  by (simp add: brace_free_def)















section \<open>Properties of response parsing\<close>







lemma not_space_brace [simp]: "\<not> isspace (CHR ''{'')" "\<not> isspace (CHR ''}'')" "\<not> isspace (CHR 0x60)"
  by (simp_all add: isspace_def)








end
